theory Spec2Isabelle
  imports Main
begin

section \<open>Errors and identifiers\<close>

text \<open>
  Every \<^verbatim>\<open>throw\<close> of the TypeScript sources, and every rejected database call, is a
  value of \<open>exn\<close>; a function that may throw returns \<open>exn + 'a\<close> with \<open>Inl\<close> for the
  exception. Prisma's \<^verbatim>\<open>cuid()\<close> identifiers are numbers drawn from a counter that the
  store carries.
\<close>

datatype exn =
    TypeError
  | JsError string
  | HttpError int string
  | UniqueConstraint
  | RecordNotFound
  | IntegerOutOfRange
  | NumericOverflow
  | InvalidText
  | MissingValue
  | ForeignKeyConstraint

type_synonym ident = nat

section \<open>Accounts and the monthly quota (UserService)\<close>

datatype SubscriptionTier = FREE | PLUS | PREMIUM

text \<open>
  A JavaScript \<^verbatim>\<open>Date\<close> is read by the quota code through \<^verbatim>\<open>getFullYear()\<close> and
  \<^verbatim>\<open>getMonth()\<close> only; the record keeps these two readings and the timestamp.
\<close>

record jsdate =
  getFullYear :: int
  getMonth :: int
  getTime :: int

record user =
  user_id :: ident
  email :: string
  user_name :: "string option"
  subscriptionTier :: SubscriptionTier
  subscriptionId :: "string option"
  customerId :: "string option"
  subscriptionEndsAt :: "jsdate option"
  monthlyRoasts :: int
  totalRoasts :: int
  bonusCredits :: int
  lastRoastReset :: jsdate

text \<open>The \<^verbatim>\<open>users\<close> table, in insertion order, and the identifier counter.\<close>

record user_store =
  users :: "user list"
  nextUserId :: ident

definition findUserById :: "user_store \<Rightarrow> ident \<Rightarrow> user option" where
  "findUserById d uid = find (\<lambda>u. user_id u = uid) (users d)"

definition findUserByEmail :: "user_store \<Rightarrow> string \<Rightarrow> user option" where
  "findUserByEmail d e = find (\<lambda>u. email u = e) (users d)"

definition updateUser :: "user_store \<Rightarrow> ident \<Rightarrow> (user \<Rightarrow> user) \<Rightarrow> user_store" where
  "updateUser d uid f = d\<lparr>users := map (\<lambda>u. if user_id u = uid then f u else u) (users d)\<rparr>"

definition findOrCreate :: "jsdate \<Rightarrow> user_store \<Rightarrow> string \<Rightarrow> string option \<Rightarrow> user \<times> user_store" where
  "findOrCreate now d e n =
     (case findUserByEmail d e of
        Some existingUser \<Rightarrow> (existingUser, d)
      | None \<Rightarrow>
          (let u = \<lparr>user_id = nextUserId d, email = e, user_name = n,
                     subscriptionTier = FREE, subscriptionId = None, customerId = None,
                     subscriptionEndsAt = None, monthlyRoasts = 0, totalRoasts = 0,
                     bonusCredits = 0, lastRoastReset = now\<rparr>
           in (u, d\<lparr>users := users d @ [u], nextUserId := Suc (nextUserId d)\<rparr>)))"

definition monthsElapsed :: "jsdate \<Rightarrow> jsdate \<Rightarrow> int" where
  "monthsElapsed now lastReset =
     (getFullYear now - getFullYear lastReset) * 12 + (getMonth now - getMonth lastReset)"

fun MONTHLY_LIMITS :: "SubscriptionTier \<Rightarrow> int" where
  "MONTHLY_LIMITS FREE = 3"
| "MONTHLY_LIMITS PLUS = 100"
| "MONTHLY_LIMITS PREMIUM = - 1"

record roast_limit =
  canRoast :: bool
  remaining :: int
  used :: int
  limit :: int
  tier :: SubscriptionTier

definition checkRoastLimit :: "jsdate \<Rightarrow> user_store \<Rightarrow> ident \<Rightarrow> exn + (roast_limit \<times> user_store)" where
  "checkRoastLimit now d userId =
     (case findUserById d userId of
        None \<Rightarrow> Inl (JsError ''User not found'')
      | Some u0 \<Rightarrow>
          (let rollover = (1 \<le> monthsElapsed now (lastRoastReset u0));
               d' = (if rollover
                     then updateUser d userId (\<lambda>u. u\<lparr>monthlyRoasts := 0, lastRoastReset := now\<rparr>)
                     else d);
               u = (if rollover then u0\<lparr>monthlyRoasts := 0\<rparr> else u0);
               lim = MONTHLY_LIMITS (subscriptionTier u)
           in Inr (\<lparr>canRoast = (lim = - 1 \<or> monthlyRoasts u < lim),
                     remaining = (if lim = - 1 then - 1 else max 0 (lim - monthlyRoasts u)),
                     used = monthlyRoasts u,
                     limit = lim,
                     tier = subscriptionTier u\<rparr>, d')))"

text \<open>
  \<^verbatim>\<open>monthlyRoasts\<close> and \<^verbatim>\<open>totalRoasts\<close> are 32-bit signed columns: an increment past
  the largest value is rejected by the database.
\<close>

definition incrementRoastCount :: "user_store \<Rightarrow> ident \<Rightarrow> exn + user_store" where
  "incrementRoastCount d userId =
     (case findUserById d userId of
        None \<Rightarrow> Inl RecordNotFound
      | Some u0 \<Rightarrow>
          (if 2147483647 < monthlyRoasts u0 + 1 \<or> 2147483647 < totalRoasts u0 + 1
           then Inl IntegerOutOfRange
           else Inr (updateUser d userId
                  (\<lambda>u. u\<lparr>monthlyRoasts := monthlyRoasts u + 1, totalRoasts := totalRoasts u + 1\<rparr>))))"

record subscription_data =
  new_subscriptionTier :: "SubscriptionTier option"
  new_subscriptionId :: "string option"
  new_customerId :: "string option"
  new_subscriptionEndsAt :: "jsdate option"

definition applySubscription :: "subscription_data \<Rightarrow> user \<Rightarrow> user" where
  "applySubscription s u =
     u\<lparr>subscriptionTier := (case new_subscriptionTier s of None \<Rightarrow> subscriptionTier u | Some t \<Rightarrow> t),
       subscriptionId := (case new_subscriptionId s of None \<Rightarrow> subscriptionId u | Some i \<Rightarrow> Some i),
       customerId := (case new_customerId s of None \<Rightarrow> customerId u | Some c \<Rightarrow> Some c),
       subscriptionEndsAt :=
         (case new_subscriptionEndsAt s of None \<Rightarrow> subscriptionEndsAt u | Some e \<Rightarrow> Some e)\<rparr>"

definition updateSubscription :: "user_store \<Rightarrow> ident \<Rightarrow> subscription_data \<Rightarrow> exn + user_store" where
  "updateSubscription d userId s =
     (case findUserById d userId of
        None \<Rightarrow> Inl RecordNotFound
      | Some u0 \<Rightarrow> Inr (updateUser d userId (applySubscription s)))"

text \<open>The operations of \<^verbatim>\<open>UserService\<close>, as one step function on the users table.\<close>

datatype user_op =
    FindOrCreate string "string option"
  | CheckRoastLimit ident
  | IncrementRoastCount ident
  | UpdateSubscription ident subscription_data

fun run_user_op :: "jsdate \<Rightarrow> user_store \<Rightarrow> user_op \<Rightarrow> exn + user_store" where
  "run_user_op now d (FindOrCreate e n) = Inr (snd (findOrCreate now d e n))"
| "run_user_op now d (CheckRoastLimit i) = map_sum id snd (checkRoastLimit now d i)"
| "run_user_op now d (IncrementRoastCount i) = incrementRoastCount d i"
| "run_user_op now d (UpdateSubscription i s) = updateSubscription d i s"

section \<open>JavaScript values\<close>

text \<open>
  Data typed \<^verbatim>\<open>any\<close> (parsed JSON bodies, the provider's tool output) is a \<open>jsval\<close>.
  An object is the list of its own properties; a repeated key is read at its first
  binding. A string is the list of its code units. Numbers are integers: the code below
  looks at a number only to see whether it is zero, whether it is positive, and whether
  its rendering holds a digit.
\<close>

datatype jsval =
    JUndefined
  | JNull
  | JBool bool
  | JNum int
  | JStr string
  | JArr "jsval list"
  | JObj "(string \<times> jsval) list"

fun nullish :: "jsval \<Rightarrow> bool" where
  "nullish JUndefined = True"
| "nullish JNull = True"
| "nullish _ = False"

text \<open>Truthiness, as \<^verbatim>\<open>if (v)\<close>, \<^verbatim>\<open>!v\<close> and \<^verbatim>\<open>v || w\<close> test it.\<close>

fun truthy :: "jsval \<Rightarrow> bool" where
  "truthy JUndefined = False"
| "truthy JNull = False"
| "truthy (JBool b) = b"
| "truthy (JNum n) = (n \<noteq> 0)"
| "truthy (JStr s) = (s \<noteq> [])"
| "truthy (JArr xs) = True"
| "truthy (JObj kvs) = True"

text \<open>
  \<open>own_prop v k\<close> is the property read \<^verbatim>\<open>v.k\<close> on a value that is neither
  \<^verbatim>\<open>null\<close> nor \<^verbatim>\<open>undefined\<close>, for the data keys the sources read (none of them names a
  method of a prototype): an own property of an object, \<^verbatim>\<open>length\<close> of an array or a
  string, \<^verbatim>\<open>undefined\<close> otherwise. \<open>get_prop\<close> is the plain read, which throws on
  \<^verbatim>\<open>null\<close> and \<^verbatim>\<open>undefined\<close>; \<open>opt_get\<close> is the optional chain \<^verbatim>\<open>v?.k\<close>.
\<close>

fun own_prop :: "jsval \<Rightarrow> string \<Rightarrow> jsval" where
  "own_prop (JObj kvs) k = (case map_of kvs k of Some v \<Rightarrow> v | None \<Rightarrow> JUndefined)"
| "own_prop (JArr xs) k = (if k = ''length'' then JNum (int (length xs)) else JUndefined)"
| "own_prop (JStr s) k = (if k = ''length'' then JNum (int (length s)) else JUndefined)"
| "own_prop _ k = JUndefined"

definition get_prop :: "jsval \<Rightarrow> string \<Rightarrow> exn + jsval" where
  "get_prop v k = (if nullish v then Inl TypeError else Inr (own_prop v k))"

definition opt_get :: "jsval \<Rightarrow> string \<Rightarrow> jsval" where
  "opt_get v k = (if nullish v then JUndefined else own_prop v k)"

text \<open>
  Converting a value to a primitive (for a template, a regular expression test or an
  arithmetic comparison) calls its \<^verbatim>\<open>toString\<close> method. A parsed JSON object inherits
  a working one unless it has an own property named \<^verbatim>\<open>toString\<close>, which is never a
  function: then the conversion throws a TypeError. An array converts its elements in
  turn, skipping \<^verbatim>\<open>null\<close> and \<^verbatim>\<open>undefined\<close>.
\<close>

fun to_string_throws :: "jsval \<Rightarrow> bool" where
  "to_string_throws (JObj kvs) = list_ex (\<lambda>kv. fst kv = ''toString'') kvs"
| "to_string_throws (JArr xs) = list_ex to_string_throws xs"
| "to_string_throws _ = False"

text \<open>
  The comparison \<^verbatim>\<open>v > 0\<close>. \<^verbatim>\<open>undefined\<close> converts to NaN and \<^verbatim>\<open>null\<close> to 0, a
  boolean to 0 or 1, an object without its own \<^verbatim>\<open>toString\<close> to NaN. For a string and
  for an array (compared through its string rendering) the outcome is that of
  ECMAScript's string-to-number conversion, which is taken as the parameter \<open>pos\<close>.
\<close>

fun js_gt0 :: "(jsval \<Rightarrow> bool) \<Rightarrow> jsval \<Rightarrow> exn + bool" where
  "js_gt0 pos JUndefined = Inr False"
| "js_gt0 pos JNull = Inr False"
| "js_gt0 pos (JBool b) = Inr b"
| "js_gt0 pos (JNum n) = Inr (0 < n)"
| "js_gt0 pos (JStr s) = Inr (pos (JStr s))"
| "js_gt0 pos (JArr xs) =
     (if to_string_throws (JArr xs) then Inl TypeError else Inr (pos (JArr xs)))"
| "js_gt0 pos (JObj kvs) =
     (if to_string_throws (JObj kvs) then Inl TypeError else Inr False)"

text \<open>
  \<^verbatim>\<open>/\d+/.test(v)\<close>: whether the string conversion of \<open>v\<close> holds a decimal digit. A
  number's rendering always does; \<^verbatim>\<open>"undefined"\<close>, \<^verbatim>\<open>"null"\<close>, \<^verbatim>\<open>"true"\<close>,
  \<^verbatim>\<open>"false"\<close> and \<^verbatim>\<open>"[object Object]"\<close> do not; an array renders as its elements
  joined by commas, \<^verbatim>\<open>null\<close> and \<^verbatim>\<open>undefined\<close> elements as the empty string.
\<close>

definition is_digit :: "char \<Rightarrow> bool" where
  "is_digit c = (c \<in> set ''0123456789'')"

fun renders_digit :: "jsval \<Rightarrow> bool" where
  "renders_digit JUndefined = False"
| "renders_digit JNull = False"
| "renders_digit (JBool b) = False"
| "renders_digit (JNum n) = True"
| "renders_digit (JStr s) = list_ex is_digit s"
| "renders_digit (JArr xs) = list_ex renders_digit xs"
| "renders_digit (JObj kvs) = False"

definition test_digits :: "jsval \<Rightarrow> exn + bool" where
  "test_digits v = (if to_string_throws v then Inl TypeError else Inr (renders_digit v))"

text \<open>\<^verbatim>\<open>Array.prototype.some\<close> with a callback that may throw: it stops at the first hit.\<close>

fun js_some :: "('a \<Rightarrow> exn + bool) \<Rightarrow> 'a list \<Rightarrow> exn + bool" where
  "js_some f [] = Inr False"
| "js_some f (x # xs) =
     (case f x of
        Inl e \<Rightarrow> Inl e
      | Inr b \<Rightarrow> if b then Inr True else js_some f xs)"

section \<open>The vision preprocessor (convertPDFToImages)\<close>

text \<open>
  The conversion microservice is seen through \<^verbatim>\<open>fetch\<close>: the call throws (network
  failure, timeout) or yields a response, whose \<^verbatim>\<open>ok\<close> flag says the status is 2xx and
  whose body reads \<^verbatim>\<open>text()\<close> and \<^verbatim>\<open>json()\<close> may throw in turn.
\<close>

record http_response =
  resp_status :: int
  resp_text :: "exn + string"
  resp_json :: "exn + jsval"

definition resp_ok :: "http_response \<Rightarrow> bool" where
  "resp_ok r = (200 \<le> resp_status r \<and> resp_status r \<le> 299)"

type_synonym fetch = "nat list \<Rightarrow> exn + http_response"

text \<open>
  The logging loop \<^verbatim>\<open>images.forEach(image => Math.round(image.length / 1024) ...)\<close>
  throws when \<^verbatim>\<open>images\<close> is not an array, when an element is \<^verbatim>\<open>null\<close> or
  \<^verbatim>\<open>undefined\<close>, and when an element's \<^verbatim>\<open>length\<close> cannot be converted for the
  division.
\<close>

definition image_size_throws :: "jsval \<Rightarrow> bool" where
  "image_size_throws img = (nullish img \<or> to_string_throws (own_prop img ''length''))"

definition log_image_sizes :: "jsval \<Rightarrow> exn + jsval list" where
  "log_image_sizes images =
     (case images of
        JArr xs \<Rightarrow> if list_ex image_size_throws xs then Inl TypeError else Inr xs
      | _ \<Rightarrow> Inl TypeError)"

text \<open>The body of the \<^verbatim>\<open>try\<close> block.\<close>

definition convertPDFToImages_try :: "fetch \<Rightarrow> nat list \<Rightarrow> exn + jsval list" where
  "convertPDFToImages_try fetch pdfBuffer =
     (case fetch pdfBuffer of
        Inl e \<Rightarrow> Inl e
      | Inr response \<Rightarrow>
          if \<not> resp_ok response then
            (case resp_text response of
               Inl e \<Rightarrow> Inl e
             | Inr errorText \<Rightarrow> Inl (HttpError (resp_status response) errorText))
          else
            (case resp_json response of
               Inl e \<Rightarrow> Inl e
             | Inr result \<Rightarrow>
                 (case get_prop result ''success'' of
                    Inl e \<Rightarrow> Inl e
                  | Inr success \<Rightarrow>
                      if \<not> truthy success then Inl (JsError ''Conversion failed'')
                      else
                        (let i = own_prop result ''images'';
                             images = (if truthy i then i else JArr [])
                         in log_image_sizes images))))"

text \<open>The whole function: the \<^verbatim>\<open>catch\<close> clause turns every exception into \<^verbatim>\<open>[]\<close>.\<close>

definition convertPDFToImages :: "fetch \<Rightarrow> nat list \<Rightarrow> exn + jsval list" where
  "convertPDFToImages fetch pdfBuffer =
     (case convertPDFToImages_try fetch pdfBuffer of
        Inl error \<Rightarrow> Inr []
      | Inr images \<Rightarrow> Inr images)"

section \<open>The ATS score (calculateATSScore)\<close>

text \<open>The callback of the outer \<^verbatim>\<open>some\<close>: \<^verbatim>\<open>exp.achievements?.some(a => /\d+/.test(a))\<close>.\<close>

definition quantified :: "jsval \<Rightarrow> exn + bool" where
  "quantified exp =
     (case get_prop exp ''achievements'' of
        Inl e \<Rightarrow> Inl e
      | Inr achievements \<Rightarrow>
          (case achievements of
             JUndefined \<Rightarrow> Inr False
           | JNull \<Rightarrow> Inr False
           | JArr xs \<Rightarrow> js_some test_digits xs
           | _ \<Rightarrow> Inl TypeError))"

definition hasQuantifiedAchievements :: "jsval \<Rightarrow> exn + bool" where
  "hasQuantifiedAchievements experience =
     (case experience of
        JUndefined \<Rightarrow> Inr False
      | JNull \<Rightarrow> Inr False
      | JArr xs \<Rightarrow> js_some quantified xs
      | _ \<Rightarrow> Inl TypeError)"

text \<open>\<open>add_if c n score\<close> is \<^verbatim>\<open>if (c) score += n\<close>.\<close>

definition add_if :: "bool \<Rightarrow> int \<Rightarrow> int \<Rightarrow> int" where
  "add_if c n score = (if c then score + n else score)"

definition calculateATSScore :: "(jsval \<Rightarrow> bool) \<Rightarrow> jsval \<Rightarrow> string \<Rightarrow> exn + int" where
  "calculateATSScore pos extractedData jobDescription =
     (case get_prop extractedData ''personalInfo'' of
        Inl e \<Rightarrow> Inl e
      | Inr personalInfo \<Rightarrow>
          (let score1 = add_if (truthy (opt_get personalInfo ''name'')) 10 0;
               score2 = add_if (truthy (opt_get personalInfo ''email'')) 10 score1;
               score3 = add_if (truthy (opt_get personalInfo ''phone'')) 5 score2;
               score4 = add_if (truthy (own_prop extractedData ''summary'')) 15 score3;
               experience = own_prop extractedData ''experience'';
               education = own_prop extractedData ''education'';
               technical = opt_get (own_prop extractedData ''skills'') ''technical''
           in case js_gt0 pos (opt_get experience ''length'') of
                Inl e \<Rightarrow> Inl e
              | Inr c5 \<Rightarrow>
             (case js_gt0 pos (opt_get education ''length'') of
                Inl e \<Rightarrow> Inl e
              | Inr c6 \<Rightarrow>
             (case js_gt0 pos (opt_get technical ''length'') of
                Inl e \<Rightarrow> Inl e
              | Inr c7 \<Rightarrow>
             (case hasQuantifiedAchievements experience of
                Inl e \<Rightarrow> Inl e
              | Inr q \<Rightarrow>
                  Inr (min (add_if q 15 (add_if c7 15 (add_if c6 10 (add_if c5 20 score4)))) 100))))))"

section \<open>Concrete accounts used to exercise the quota code\<close>

definition jan :: jsdate where
  "jan = \<lparr>getFullYear = 2025, getMonth = 0, getTime = 100\<rparr>"

definition jan_later :: jsdate where
  "jan_later = \<lparr>getFullYear = 2025, getMonth = 0, getTime = 200\<rparr>"

definition feb :: jsdate where
  "feb = \<lparr>getFullYear = 2025, getMonth = 1, getTime = 300\<rparr>"

definition exhausted_user :: user where
  "exhausted_user = \<lparr>user_id = 1, email = ''a@b.c'', user_name = None,
     subscriptionTier = FREE, subscriptionId = None, customerId = None,
     subscriptionEndsAt = None, monthlyRoasts = 3, totalRoasts = 7,
     bonusCredits = 0, lastRoastReset = jan\<rparr>"


definition bonus_user :: user where
  "bonus_user = exhausted_user\<lparr>bonusCredits := 5\<rparr>"

definition bonus_store :: user_store where
  "bonus_store = \<lparr>users = [bonus_user], nextUserId = 2\<rparr>"

section \<open>The optimized-resume route (POST extract-resume-data)\<close>

subsection \<open>Tables\<close>

record generatedResume =
  gr_id :: ident
  gr_userId :: "ident option"
  gr_roastId :: "ident option"
  gr_extractedResumeId :: "ident option"
  gr_extractedJobId :: "ident option"
  gr_templateId :: string
  gr_contentHash :: string
  gr_content :: string
  gr_data :: jsval
  gr_atsScore :: "int option"
  gr_keywordsMatched :: "string list"
  gr_createdAt :: int

datatype LlmCallStatus = COMPLETED | FAILED | TIMEOUT

record llmCall =
  lc_id :: ident
  lc_userId :: "ident option"
  lc_provider :: string
  lc_model :: string
  lc_operationType :: string
  lc_totalTokens :: int
  lc_totalCostUsd :: int
  lc_status :: LlmCallStatus
  lc_completedAt :: "int option"
  lc_createdAt :: int

datatype MessageRole = Role_system | Role_user | Role_assistant

text \<open>A message body is a text or the \<^verbatim>\<open>JSON.stringify\<close> rendering of a value, kept as the value.\<close>

datatype message_content = Text string | Stringified jsval

record llmMessage =
  lm_id :: ident
  lm_llmCallId :: ident
  lm_role :: MessageRole
  lm_content :: message_content
  lm_messageIndex :: int
  lm_totalTokens :: "int option"
  lm_createdAt :: int

text \<open>Uploaded files and the data extracted from them, as far as deletions need them.\<close>

record resume =
  rs_id :: ident
  rs_userId :: "ident option"
  rs_filename :: string
  rs_fileHash :: string
  rs_mimeType :: string
  rs_createdAt :: int

record extractedResume =
  er_id :: ident
  er_resumeId :: ident
  er_contentHash :: string
  er_data :: jsval
  er_createdAt :: int

text \<open>
  The database: the tables that the route and the deletions touch, and the identifier
  counter. A write on the store fails only because the database refuses the values or
  a constraint of the schema; connection failures are not modelled.
\<close>

record store =
  accounts :: user_store
  resumes :: "resume list"
  extractedResumes :: "extractedResume list"
  llmCalls :: "llmCall list"
  llmMessages :: "llmMessage list"
  generatedResumes :: "generatedResume list"
  nextId :: ident

text \<open>
  \<^verbatim>\<open>findFirst({where: {userId, contentHash}, orderBy: {createdAt: 'desc'}})\<close>: the
  matching row created last; among rows of one timestamp, the one stored first.
\<close>

fun latest :: "generatedResume list \<Rightarrow> generatedResume option" where
  "latest [] = None"
| "latest (r # rs) =
     (case latest rs of
        None \<Rightarrow> Some r
      | Some r' \<Rightarrow> if gr_createdAt r < gr_createdAt r' then Some r' else Some r)"

definition findFirstGeneratedResume :: "store \<Rightarrow> ident \<Rightarrow> string \<Rightarrow> generatedResume option" where
  "findFirstGeneratedResume s userId contentHash =
     latest (filter (\<lambda>r. gr_userId r = Some userId \<and> gr_contentHash r = contentHash)
               (generatedResumes s))"

text \<open>
  What the database refuses to store, whatever the table: an \<^verbatim>\<open>Int\<close> column takes a
  32-bit signed integer, a \<^verbatim>\<open>Decimal(10,6)\<close> column (costs, counted here in
  millionths of a dollar) takes fewer than five integral digits, a text column takes
  no NUL character, and a \<^verbatim>\<open>Json\<close> column takes no NUL character in a string or a key.
  A required column is refused \<^verbatim>\<open>undefined\<close>, and a required \<^verbatim>\<open>Json\<close> column
  \<^verbatim>\<open>null\<close> as well; a reference must point to a row that exists. The checks are made
  in this order: the arguments, the values, uniqueness, then the references.
\<close>

definition int32 :: "int \<Rightarrow> bool" where
  "int32 n = (- 2147483648 \<le> n \<and> n \<le> 2147483647)"

definition decimal_10_6 :: "int \<Rightarrow> bool" where
  "decimal_10_6 c = (- 10000000000 < c \<and> c < 10000000000)"

definition has_nul :: "string \<Rightarrow> bool" where
  "has_nul t = List.member t (CHR 0x00)"

fun json_has_nul :: "jsval \<Rightarrow> bool" where
  "json_has_nul (JStr t) = has_nul t"
| "json_has_nul (JArr xs) = list_ex json_has_nul xs"
| "json_has_nul (JObj kvs) = list_ex (\<lambda>kv. has_nul (fst kv) \<or> json_has_nul (snd kv)) kvs"
| "json_has_nul _ = False"

text \<open>
  \<^verbatim>\<open>generatedResume.create\<close>. Besides the values that no column takes, the column
  \<^verbatim>\<open>contentHash\<close> is declared \<^verbatim>\<open>@unique\<close>: the insert is rejected when any row, of
  any user, already carries the hash. The row refers to its account.
\<close>

definition generatedResume_create ::
  "int \<Rightarrow> store \<Rightarrow> ident \<Rightarrow> string \<Rightarrow> string \<Rightarrow> string \<Rightarrow> jsval \<Rightarrow> int \<Rightarrow> string list
     \<Rightarrow> exn + (generatedResume \<times> store)" where
  "generatedResume_create now s userId templateId contentHash content extractedData atsScore
       keywordsMatched =
     (if nullish extractedData then Inl MissingValue
      else if has_nul templateId \<or> has_nul contentHash \<or> has_nul content
         \<or> json_has_nul extractedData \<or> list_ex has_nul keywordsMatched
      then Inl InvalidText
      else if \<not> int32 atsScore then Inl IntegerOutOfRange
      else if list_ex (\<lambda>r. gr_contentHash r = contentHash) (generatedResumes s)
      then Inl UniqueConstraint
      else if \<not> list_ex (\<lambda>x. user_id x = userId) (users (accounts s))
      then Inl ForeignKeyConstraint
      else
        (let row = \<lparr>gr_id = nextId s, gr_userId = Some userId, gr_roastId = None,
                     gr_extractedResumeId = None, gr_extractedJobId = None,
                     gr_templateId = templateId, gr_contentHash = contentHash,
                     gr_content = content, gr_data = extractedData,
                     gr_atsScore = Some atsScore, gr_keywordsMatched = keywordsMatched,
                     gr_createdAt = now\<rparr>
         in Inr (row, s\<lparr>generatedResumes := generatedResumes s @ [row],
                         nextId := Suc (nextId s)\<rparr>)))"

text \<open>\<^verbatim>\<open>llmCall.create\<close>, with the columns the route fills. The row refers to its account.\<close>

definition llmCall_create ::
  "int \<Rightarrow> store \<Rightarrow> ident \<Rightarrow> string \<Rightarrow> int \<Rightarrow> int \<Rightarrow> exn + (llmCall \<times> store)" where
  "llmCall_create now s userId modelName tokensUsed estimatedCost =
     (if has_nul modelName then Inl InvalidText
      else if \<not> int32 tokensUsed then Inl IntegerOutOfRange
      else if \<not> decimal_10_6 estimatedCost then Inl NumericOverflow
      else if \<not> list_ex (\<lambda>x. user_id x = userId) (users (accounts s))
      then Inl ForeignKeyConstraint
      else
        (let row = \<lparr>lc_id = nextId s, lc_userId = Some userId, lc_provider = ''anthropic'',
                     lc_model = modelName, lc_operationType = ''resume_extraction'',
                     lc_totalTokens = tokensUsed, lc_totalCostUsd = estimatedCost,
                     lc_status = COMPLETED, lc_completedAt = Some now, lc_createdAt = now\<rparr>
         in Inr (row, s\<lparr>llmCalls := llmCalls s @ [row], nextId := Suc (nextId s)\<rparr>)))"

text \<open>
  \<^verbatim>\<open>llmMessage.create\<close>. A stringified value holds no NUL character: \<^verbatim>\<open>JSON.stringify\<close>
  writes it as an escape. \<^verbatim>\<open>JSON.stringify(undefined)\<close> is \<^verbatim>\<open>undefined\<close>, which leaves the
  required column \<^verbatim>\<open>content\<close> without a value. The row refers to its call record.
\<close>

fun content_has_nul :: "message_content \<Rightarrow> bool" where
  "content_has_nul (Text t) = has_nul t"
| "content_has_nul (Stringified v) = False"

fun content_missing :: "message_content \<Rightarrow> bool" where
  "content_missing (Stringified JUndefined) = True"
| "content_missing _ = False"

definition llmMessage_create ::
  "int \<Rightarrow> store \<Rightarrow> ident \<Rightarrow> MessageRole \<Rightarrow> message_content \<Rightarrow> int \<Rightarrow> int \<Rightarrow> exn + store" where
  "llmMessage_create now s llmCallId r c messageIndex tokens =
     (if content_missing c then Inl MissingValue
      else if content_has_nul c then Inl InvalidText
      else if \<not> int32 tokens then Inl IntegerOutOfRange
      else if \<not> list_ex (\<lambda>x. lc_id x = llmCallId) (llmCalls s)
      then Inl ForeignKeyConstraint
      else
        (let row = \<lparr>lm_id = nextId s, lm_llmCallId = llmCallId, lm_role = r, lm_content = c,
                     lm_messageIndex = messageIndex, lm_totalTokens = Some tokens,
                     lm_createdAt = now\<rparr>
         in Inr (s\<lparr>llmMessages := llmMessages s @ [row], nextId := Suc (nextId s)\<rparr>)))"

subsection \<open>Collaborators\<close>

record llm_response =
  llm_data :: jsval
  llm_processingTime :: int
  llm_totalTokens :: int
  llm_cost :: int

text \<open>
  What the route calls and this development does not look into: the provider call
  \<^verbatim>\<open>callAnthropicResumeOptimization\<close> and the model name \<^verbatim>\<open>ANTHROPIC_MODELS.SONNET\<close>
  (module \<^verbatim>\<open>anthropic-utils\<close>), the string-to-number conversion of the language, the
  rendering of the \<^verbatim>\<open>ANALYSIS INSIGHTS\<close> block of the prompt template, and the two
  helpers \<^verbatim>\<open>extractKeywordsMatched\<close> and \<^verbatim>\<open>generateOptimizedResumeContent\<close>, of which
  only the result and whether they throw matter below. Every theorem holds for all of
  them. The digest \<^verbatim>\<open>crypto.createHash('sha256')\<close> is the separate parameter \<open>H\<close>.
\<close>

record env =
  callAnthropicResumeOptimization :: "string \<Rightarrow> exn + llm_response"
  SONNET :: string
  string_positive :: "jsval \<Rightarrow> bool"
  renderInsights :: "jsval \<Rightarrow> exn + string"
  extractKeywordsMatched :: "jsval \<Rightarrow> string \<Rightarrow> exn + string list"
  generateOptimizedResumeContent :: "jsval \<Rightarrow> string \<Rightarrow> exn + string"

subsection \<open>Request and response\<close>

text \<open>
  The session's e-mail address (absent without a session) and the parsed body, whose
  fields are read at the types the route uses them at; \<^verbatim>\<open>request.json()\<close> may throw.
\<close>

record request_body =
  resumeText :: "string option"
  analysisData :: jsval
  jobDescription :: "string option"
  analysisId :: "string option"
  bypassCache :: bool

record request =
  session_email :: "string option"
  request_json :: "exn + request_body"

datatype response_metadata =
    FromDatabase int "string list"
  | Generated int int int int "string list" "ident option"

record success_body =
  body_data :: jsval
  cached :: bool
  resumeId :: "ident option"
  metadata :: response_metadata

datatype response = Failure nat string | Success success_body

text \<open>\<open>or_empty x\<close> is \<^verbatim>\<open>x || ''\<close> and \<open>falsy x\<close> is \<^verbatim>\<open>!x\<close>, on an optional string.\<close>

fun or_empty :: "string option \<Rightarrow> string" where
  "or_empty None = []"
| "or_empty (Some x) = x"

definition falsy :: "string option \<Rightarrow> bool" where
  "falsy x = (or_empty x = [])"

subsection \<open>Truncation and the content hash\<close>

definition maxResumeLength :: nat where
  "maxResumeLength = 8000"

definition truncation_marker :: string where
  "truncation_marker = ''\<newline>\<newline>[Resume truncated for processing...]''"

definition truncateResumeText :: "string \<Rightarrow> string" where
  "truncateResumeText txt =
     (if maxResumeLength < length txt
      then take maxResumeLength txt @ truncation_marker
      else txt)"

definition templateId :: string where
  "templateId = ''modern-professional''"

text \<open>The string fed to the digest, and the digest of it.\<close>

definition hashMaterial :: "string \<Rightarrow> string option \<Rightarrow> string option \<Rightarrow> string" where
  "hashMaterial truncatedResumeText jd aid =
     truncatedResumeText @ or_empty jd @ templateId @ or_empty aid"

definition contentHash :: "(string \<Rightarrow> string) \<Rightarrow> string \<Rightarrow> string option \<Rightarrow> string option \<Rightarrow> string" where
  "contentHash H truncatedResumeText jd aid = H (hashMaterial truncatedResumeText jd aid)"

subsection \<open>The prompt\<close>

definition prompt_head :: string where
  "prompt_head =
     ''Extract and structure the following resume data into a comprehensive JSON format:\<newline>\<newline>''"

definition prompt_instructions :: string where
  "prompt_instructions =
     ''\<newline>\<newline>IMPORTANT INSTRUCTIONS:\<newline>'' @
     ''1. Extract information accurately from the resume text\<newline>'' @
     ''2. Optimize content for ATS compatibility\<newline>'' @
     ''3. Include quantified achievements where possible\<newline>'' @
     ''4. Match keywords from the job description naturally\<newline>'' @
     ''5. Ensure all dates are in MM/YYYY format\<newline>'' @
     ''6. If information is missing, use null or empty arrays as appropriate\<newline>'' @
     ''7. Make sure you don'' @ [CHR 0x27] @ ''t omit any information from the resume text, '' @
     ''this is the most important part of the process.\<newline>\<newline>'' @
     ''Please use the optimize_resume_data function to return the structured data.''"

definition build_prompt :: "env \<Rightarrow> string option \<Rightarrow> string \<Rightarrow> jsval \<Rightarrow> exn + string" where
  "build_prompt env jd truncatedResumeText ad =
     (case (if truthy ad then renderInsights env ad else Inr []) of
        Inl e \<Rightarrow> Inl e
      | Inr insights \<Rightarrow>
          Inr (prompt_head
               @ (if falsy jd then []
                  else ''\<newline>TARGET JOB DESCRIPTION:\<newline>'' @ or_empty jd @ ''\<newline>'')
               @ ''\<newline>\<newline>RESUME TEXT:\<newline>'' @ truncatedResumeText @ ''\<newline>\<newline>''
               @ insights
               @ prompt_instructions))"

subsection \<open>Persisting a generation\<close>

text \<open>
  The inner \<^verbatim>\<open>try\<close> block: the call record, its two messages, then the resume row.
  Each of the four inserts may be rejected; the first rejection ends the block. Nothing
  is rolled back, and the \<^verbatim>\<open>catch\<close> clause logs and goes on, leaving \<^verbatim>\<open>llmCallId\<close>
  and \<^verbatim>\<open>generatedResumeId\<close> at what they were assigned so far, \<^verbatim>\<open>null\<close> at first.
  The token split \<^verbatim>\<open>Math.floor(tokensUsed * 0.8)\<close> is taken on exact numbers.
\<close>

definition store_extraction ::
  "env \<Rightarrow> int \<Rightarrow> store \<Rightarrow> user \<Rightarrow> string \<Rightarrow> string \<Rightarrow> llm_response \<Rightarrow> int \<Rightarrow> string list \<Rightarrow> string
     \<Rightarrow> (ident option \<times> ident option) \<times> store" where
  "store_extraction env now s u hash prompt response atsScore keywordsMatched optimizedContent =
     (let tokensUsed = llm_totalTokens response
      in case llmCall_create now s (user_id u) (SONNET env) tokensUsed (llm_cost response) of
           Inl dbError \<Rightarrow> ((None, None), s)
         | Inr (call, s1) \<Rightarrow>
        (case llmMessage_create now s1 (lc_id call) Role_user (Text prompt) 0
                ((tokensUsed * 8) div 10) of
           Inl dbError \<Rightarrow> ((Some (lc_id call), None), s1)
         | Inr s2 \<Rightarrow>
        (case llmMessage_create now s2 (lc_id call) Role_assistant
                (Stringified (llm_data response)) 1 ((tokensUsed * 2) div 10) of
           Inl dbError \<Rightarrow> ((Some (lc_id call), None), s2)
         | Inr s3 \<Rightarrow>
        (case generatedResume_create now s3 (user_id u) templateId hash optimizedContent
                (llm_data response) atsScore keywordsMatched of
           Inl dbError \<Rightarrow> ((Some (lc_id call), None), s3)
         | Inr (row, s4) \<Rightarrow> ((Some (lc_id call), Some (gr_id row)), s4)))))"

subsection \<open>The handler\<close>

definition internal_error :: response where
  "internal_error = Failure 500 ''Failed to extract resume data''"

text \<open>The path after a cache miss (or a bypass): provider call, scoring, persisting.\<close>

definition generate ::
  "env \<Rightarrow> int \<Rightarrow> store \<Rightarrow> user \<Rightarrow> request_body \<Rightarrow> string \<Rightarrow> string \<Rightarrow> response \<times> store" where
  "generate env now s u body truncatedResumeText hash =
     (case build_prompt env (jobDescription body) truncatedResumeText (analysisData body) of
        Inl e \<Rightarrow> (internal_error, s)
      | Inr prompt \<Rightarrow>
     (case callAnthropicResumeOptimization env prompt of
        Inl e \<Rightarrow> (internal_error, s)
      | Inr response \<Rightarrow>
     (case calculateATSScore (string_positive env) (llm_data response)
             (or_empty (jobDescription body)) of
        Inl e \<Rightarrow> (internal_error, s)
      | Inr atsScore \<Rightarrow>
     (case extractKeywordsMatched env (llm_data response) (or_empty (jobDescription body)) of
        Inl e \<Rightarrow> (internal_error, s)
      | Inr keywordsMatched \<Rightarrow>
     (case generateOptimizedResumeContent env (llm_data response) templateId of
        Inl e \<Rightarrow> (internal_error, s)
      | Inr optimizedContent \<Rightarrow>
          (let ((llmCallId, generatedResumeId), s') =
                 store_extraction env now s u hash prompt response atsScore keywordsMatched
                   optimizedContent
           in (Success \<lparr>body_data = llm_data response, cached = False,
                         resumeId = generatedResumeId,
                         metadata = Generated (llm_totalTokens response)
                           (llm_processingTime response) (llm_cost response) atsScore
                           keywordsMatched llmCallId\<rparr>, s')))))))"

text \<open>\<^verbatim>\<open>existingResume.atsScore || 75\<close>.\<close>

definition score_or_default :: "int option \<Rightarrow> int" where
  "score_or_default a = (case a of None \<Rightarrow> 75 | Some n \<Rightarrow> if n = 0 then 75 else n)"

definition POST :: "(string \<Rightarrow> string) \<Rightarrow> env \<Rightarrow> int \<Rightarrow> store \<Rightarrow> request \<Rightarrow> response \<times> store" where
  "POST H env now s req =
     (if falsy (session_email req) then (Failure 401 ''Authentication required'', s)
      else
        (case request_json req of
           Inl e \<Rightarrow> (internal_error, s)
         | Inr body \<Rightarrow>
             (if falsy (resumeText body) then (Failure 400 ''Resume text is required'', s)
              else
                (case findUserByEmail (accounts s) (or_empty (session_email req)) of
                   None \<Rightarrow> (Failure 404 ''User not found'', s)
                 | Some u \<Rightarrow>
                     (let truncatedResumeText = truncateResumeText (or_empty (resumeText body));
                          hash = contentHash H truncatedResumeText (jobDescription body)
                                   (analysisId body)
                      in (case (if bypassCache body then None
                                else findFirstGeneratedResume s (user_id u) hash) of
                            Some existingResume \<Rightarrow>
                              (Success \<lparr>body_data = gr_data existingResume, cached = True,
                                         resumeId = Some (gr_id existingResume),
                                         metadata = FromDatabase
                                           (score_or_default (gr_atsScore existingResume))
                                           (gr_keywordsMatched existingResume)\<rparr>, s)
                          | None \<Rightarrow> generate env now s u body truncatedResumeText hash))))))"

section \<open>Service behaviours, resume shapes and examples used to state the properties\<close>

definition fetch_down :: fetch where
  "fetch_down pdfBuffer = Inl (JsError ''ECONNREFUSED'')"

definition fetch_unavailable :: fetch where
  "fetch_unavailable pdfBuffer =
     Inr \<lparr>resp_status = 503, resp_text = Inr ''Service Unavailable'',
          resp_json = Inl (JsError ''Unexpected token S in JSON'')\<rparr>"

definition fetch_garbled :: fetch where
  "fetch_garbled pdfBuffer =
     Inr \<lparr>resp_status = 200, resp_text = Inr ''<html>'',
          resp_json = Inl (JsError ''Unexpected token < in JSON'')\<rparr>"

definition fetch_unsuccessful :: fetch where
  "fetch_unsuccessful pdfBuffer =
     Inr \<lparr>resp_status = 200, resp_text = Inr [],
          resp_json = Inr (JObj [(''success'', JBool False), (''error'', JStr ''bad pdf'')])\<rparr>"

definition fetch_pages :: "nat \<Rightarrow> fetch" where
  "fetch_pages n pdfBuffer =
     Inr \<lparr>resp_status = 200, resp_text = Inr [],
          resp_json = Inr (JObj [(''success'', JBool True),
                                 (''images'', JArr (replicate n (JStr ''/9j/4AAQ'')))])\<rparr>"

text \<open>The \<^verbatim>\<open>images\<close> array carried by the service's response, empty when there is none.\<close>

definition service_images :: "fetch \<Rightarrow> nat list \<Rightarrow> jsval list" where
  "service_images fetch pdfBuffer =
     (case fetch pdfBuffer of
        Inl e \<Rightarrow> []
      | Inr response \<Rightarrow>
          (case resp_json response of
             Inl e \<Rightarrow> []
           | Inr result \<Rightarrow>
               (case opt_get result ''images'' of JArr xs \<Rightarrow> xs | _ \<Rightarrow> [])))"

text \<open>
  Extracted data of the shape the scoring code expects: an object whose
  \<^verbatim>\<open>experience\<close>, \<^verbatim>\<open>education\<close> and \<^verbatim>\<open>skills.technical\<close> are arrays or absent, each
  experience entry an object (or any value other than \<^verbatim>\<open>null\<close> and \<^verbatim>\<open>undefined\<close>)
  whose \<^verbatim>\<open>achievements\<close> are absent or an array of values that convert to a string.
\<close>

fun array_or_absent :: "jsval \<Rightarrow> bool" where
  "array_or_absent JUndefined = True"
| "array_or_absent JNull = True"
| "array_or_absent (JArr xs) = True"
| "array_or_absent _ = False"

fun printable_list :: "jsval \<Rightarrow> bool" where
  "printable_list JUndefined = True"
| "printable_list JNull = True"
| "printable_list (JArr xs) = list_all (\<lambda>a. \<not> to_string_throws a) xs"
| "printable_list _ = False"

definition entry_shaped :: "jsval \<Rightarrow> bool" where
  "entry_shaped exp = (\<not> nullish exp \<and> printable_list (own_prop exp ''achievements''))"

fun entries_shaped :: "jsval \<Rightarrow> bool" where
  "entries_shaped JUndefined = True"
| "entries_shaped JNull = True"
| "entries_shaped (JArr xs) = list_all entry_shaped xs"
| "entries_shaped _ = False"

definition resume_shaped :: "jsval \<Rightarrow> bool" where
  "resume_shaped extractedData =
     (\<not> nullish extractedData
      \<and> entries_shaped (own_prop extractedData ''experience'')
      \<and> array_or_absent (own_prop extractedData ''education'')
      \<and> array_or_absent (opt_get (own_prop extractedData ''skills'') ''technical''))"

definition never_positive :: "jsval \<Rightarrow> bool" where
  "never_positive v = False"

definition full_resume :: jsval where
  "full_resume =
     JObj [(''personalInfo'', JObj [(''name'', JStr ''Ada Lovelace''),
                                    (''email'', JStr ''ada@example.org''),
                                    (''phone'', JStr ''555-0100'')]),
           (''summary'', JStr ''Engineer''),
           (''experience'', JArr [JObj [(''position'', JStr ''Analyst''),
                                         (''achievements'', JArr [JStr ''Cut costs by 20%''])]]),
           (''education'', JArr [JObj [(''degree'', JStr ''BSc'')]]),
           (''skills'', JObj [(''technical'', JArr [JStr ''Isabelle''])])]"

definition prose_experience_resume :: jsval where
  "prose_experience_resume =
     JObj [(''personalInfo'', JObj [(''name'', JStr ''Ada Lovelace'')]),
           (''experience'', JStr ''5 years at Acme'')]"

section \<open>Concrete stores and requests used as examples\<close>

definition identity_digest :: "string \<Rightarrow> string" where
  "identity_digest m = m"

definition demo_response :: llm_response where
  "demo_response = \<lparr>llm_data = full_resume, llm_processingTime = 1200,
     llm_totalTokens = 1000, llm_cost = 15000\<rparr>"

definition demo_env :: env where
  "demo_env = \<lparr>callAnthropicResumeOptimization = (\<lambda>prompt. Inr demo_response),
     SONNET = ''claude-sonnet'',
     string_positive = never_positive,
     renderInsights = (\<lambda>ad. Inr []),
     extractKeywordsMatched = (\<lambda>d jd. Inr []),
     generateOptimizedResumeContent = (\<lambda>d t. Inr ''<div>'')\<rparr>"

definition alice :: user where
  "alice = \<lparr>user_id = 1, email = ''alice@example.org'', user_name = None,
     subscriptionTier = FREE, subscriptionId = None, customerId = None,
     subscriptionEndsAt = None, monthlyRoasts = 0, totalRoasts = 0,
     bonusCredits = 0, lastRoastReset = jan\<rparr>"

definition bob :: user where
  "bob = alice\<lparr>user_id := 2, email := ''bob@example.org''\<rparr>"

definition stored_row :: "ident \<Rightarrow> generatedResume" where
  "stored_row owner = \<lparr>gr_id = 10, gr_userId = Some owner, gr_roastId = None,
     gr_extractedResumeId = Some 7, gr_extractedJobId = None,
     gr_templateId = ''modern-professional'',
     gr_contentHash = ''My resumemodern-professional'',
     gr_content = ''<p>'', gr_data = JObj [(''summary'', JStr ''stored'')],
     gr_atsScore = Some 15, gr_keywordsMatched = [], gr_createdAt = 50\<rparr>"

definition uploaded_resume :: resume where
  "uploaded_resume = \<lparr>rs_id = 6, rs_userId = None, rs_filename = ''cv.pdf'',
     rs_fileHash = ''9f86d081'', rs_mimeType = ''application/pdf'', rs_createdAt = 40\<rparr>"

definition extracted_row :: extractedResume where
  "extracted_row = \<lparr>er_id = 7, er_resumeId = 6, er_contentHash = ''2c26b46b'',
     er_data = JObj [(''summary'', JStr ''stored'')], er_createdAt = 45\<rparr>"

text \<open>
  A store in which the resume row for the text \<^verbatim>\<open>My resume\<close> belongs to the given
  account and refers to the extracted data of an uploaded file.
\<close>

definition store_with_row :: "ident \<Rightarrow> store" where
  "store_with_row owner = \<lparr>accounts = \<lparr>users = [alice, bob], nextUserId = 3\<rparr>,
     resumes = [uploaded_resume], extractedResumes = [extracted_row],
     llmCalls = [], llmMessages = [], generatedResumes = [stored_row owner], nextId = 11\<rparr>"

definition empty_store :: store where
  "empty_store = \<lparr>accounts = \<lparr>users = [alice, bob], nextUserId = 3\<rparr>,
     resumes = [], extractedResumes = [],
     llmCalls = [], llmMessages = [], generatedResumes = [], nextId = 11\<rparr>"

definition plain_body :: "string \<Rightarrow> request_body" where
  "plain_body txt = \<lparr>resumeText = Some txt, analysisData = JUndefined, jobDescription = None,
     analysisId = None, bypassCache = False\<rparr>"

definition request_of :: "user \<Rightarrow> request_body \<Rightarrow> request" where
  "request_of u body = \<lparr>session_email = Some (email u), request_json = Inr body\<rparr>"




section \<open>The other operations on the store\<close>

text \<open>
  An operation of \<^verbatim>\<open>UserService\<close> run on the whole database: it reads and writes the
  accounts only.
\<close>

definition run_on_accounts :: "jsdate \<Rightarrow> store \<Rightarrow> user_op \<Rightarrow> exn + store" where
  "run_on_accounts now s op =
     (case run_user_op now (accounts s) op of
        Inl e \<Rightarrow> Inl e
      | Inr a \<Rightarrow> Inr (s\<lparr>accounts := a\<rparr>))"

text \<open>
  Deletions. The schema relates \<^verbatim>\<open>ExtractedResume.resume\<close> with \<^verbatim>\<open>onDelete: Cascade\<close>
  and \<^verbatim>\<open>GeneratedResume.extractedResume\<close> with \<^verbatim>\<open>onDelete: SetNull\<close>: deleting an
  uploaded file deletes what was extracted from it, and deleting extracted data clears
  the reference that a generated resume holds to it. (The references held by tables
  outside this model are cleared alike.)
\<close>

definition delete_extractedResumes :: "(extractedResume \<Rightarrow> bool) \<Rightarrow> store \<Rightarrow> store" where
  "delete_extractedResumes P s =
     (let gone = map er_id (filter P (extractedResumes s))
      in s\<lparr>extractedResumes := filter (\<lambda>e. \<not> P e) (extractedResumes s),
           generatedResumes :=
             map (\<lambda>g. case gr_extractedResumeId g of
                        None \<Rightarrow> g
                      | Some i \<Rightarrow> if List.member gone i
                                  then g\<lparr>gr_extractedResumeId := None\<rparr> else g)
               (generatedResumes s)\<rparr>)"

definition delete_resumes :: "(resume \<Rightarrow> bool) \<Rightarrow> store \<Rightarrow> store" where
  "delete_resumes P s =
     (let gone = map rs_id (filter P (resumes s))
      in delete_extractedResumes (\<lambda>e. List.member gone (er_resumeId e))
           (s\<lparr>resumes := filter (\<lambda>r. \<not> P r) (resumes s)\<rparr>))"

text \<open>
  \<^verbatim>\<open>ExtractedResumeService.delete\<close>, \<^verbatim>\<open>ResumeService.deleteById\<close>,
  \<^verbatim>\<open>ResumeService.deleteByHash\<close> (a \<^verbatim>\<open>delete\<close> of a missing row throws) and
  \<^verbatim>\<open>ResumeService.deleteOldResumes\<close>, whose cutoff date is given.
\<close>

datatype delete_op =
    ExtractedResume_delete ident
  | Resume_deleteById ident
  | Resume_deleteByHash string
  | Resume_deleteOldResumes int

fun run_delete :: "store \<Rightarrow> delete_op \<Rightarrow> exn + store" where
  "run_delete s (ExtractedResume_delete i) =
     (if list_ex (\<lambda>e. er_id e = i) (extractedResumes s)
      then Inr (delete_extractedResumes (\<lambda>e. er_id e = i) s)
      else Inl RecordNotFound)"
| "run_delete s (Resume_deleteById i) =
     (if list_ex (\<lambda>r. rs_id r = i) (resumes s)
      then Inr (delete_resumes (\<lambda>r. rs_id r = i) s)
      else Inl RecordNotFound)"
| "run_delete s (Resume_deleteByHash fileHash) =
     (if list_ex (\<lambda>r. rs_fileHash r = fileHash) (resumes s)
      then Inr (delete_resumes (\<lambda>r. rs_fileHash r = fileHash) s)
      else Inl RecordNotFound)"
| "run_delete s (Resume_deleteOldResumes cutoffDate) =
     Inr (delete_resumes (\<lambda>r. rs_createdAt r < cutoffDate \<and> rs_userId r = None) s)"

text \<open>
  What a deletion took away, read off the stores before and after it: the identifiers
  of the extracted rows, and of the uploaded files, that are no longer there. And what
  the database does to a resume row for it: the reference is cleared when it points to
  an extracted row that went, and only then.
\<close>

definition deleted_extracted :: "store \<Rightarrow> store \<Rightarrow> ident list" where
  "deleted_extracted s s' =
     map er_id (filter (\<lambda>e. \<not> List.member (extractedResumes s') e) (extractedResumes s))"

definition deleted_resumes :: "store \<Rightarrow> store \<Rightarrow> ident list" where
  "deleted_resumes s s' =
     map rs_id (filter (\<lambda>r. \<not> List.member (resumes s') r) (resumes s))"

definition clear_reference :: "ident list \<Rightarrow> generatedResume \<Rightarrow> generatedResume" where
  "clear_reference gone g =
     (case gr_extractedResumeId g of
        None \<Rightarrow> g
      | Some i \<Rightarrow> if List.member gone i then g\<lparr>gr_extractedResumeId := None\<rparr> else g)"

text \<open>The rows that an operation asks to delete.\<close>

fun resume_selected :: "delete_op \<Rightarrow> resume \<Rightarrow> bool" where
  "resume_selected (ExtractedResume_delete i) r = False"
| "resume_selected (Resume_deleteById i) r = (rs_id r = i)"
| "resume_selected (Resume_deleteByHash fileHash) r = (rs_fileHash r = fileHash)"
| "resume_selected (Resume_deleteOldResumes cutoffDate) r =
     (rs_createdAt r < cutoffDate \<and> rs_userId r = None)"

fun extracted_selected :: "delete_op \<Rightarrow> extractedResume \<Rightarrow> bool" where
  "extracted_selected (ExtractedResume_delete i) e = (er_id e = i)"
| "extracted_selected _ e = False"




section \<open>Properties of the quota check\<close>

lemma find_map_update:
  "(\<And>u. user_id (f u) = user_id u) \<Longrightarrow>
   find (\<lambda>u. user_id u = uid) (map (\<lambda>u. if user_id u = uid then f u else u) xs)
     = map_option f (find (\<lambda>u. user_id u = uid) xs)"
  by (induction xs) auto

lemma findUserById_updateUser:
  "(\<And>u. user_id (f u) = user_id u) \<Longrightarrow>
   findUserById (updateUser d uid f) uid = map_option f (findUserById d uid)"
  by (simp add: findUserById_def updateUser_def find_map_update)



lemma checkRoastLimit_reset:
  assumes "findUserById d uid = Some u" "1 \<le> monthsElapsed now (lastRoastReset u)"
  shows "\<exists>r. checkRoastLimit now d uid
            = Inr (r, updateUser d uid (\<lambda>x. x\<lparr>monthlyRoasts := 0, lastRoastReset := now\<rparr>))
          \<and> used r = 0 \<and> limit r = MONTHLY_LIMITS (subscriptionTier u)
          \<and> canRoast r = (limit r = - 1 \<or> 0 < limit r)"
  using assms by (simp add: checkRoastLimit_def Let_def)





text \<open>
  Claim C1, as the code has it. \<^verbatim>\<open>checkRoastLimit\<close> fails only for an unknown account.
  Otherwise \<open>canRoast\<close> holds exactly when the tier limit is the sentinel \<open>-1\<close> or the
  monthly counter (after a possible rollover) is strictly below the limit. The bonus
  credit balance is never read: changing it changes nothing in the answer.
\<close>

theorem checkRoastLimit_allowed:
  "(case checkRoastLimit now d uid of
      Inl e \<Rightarrow> findUserById d uid = None \<and> e = JsError ''User not found''
    | Inr (r, d') \<Rightarrow>
        canRoast r = (limit r = - 1 \<or> used r < limit r)
        \<and> (\<exists>u. findUserById d uid = Some u
               \<and> limit r = MONTHLY_LIMITS (subscriptionTier u)
               \<and> used r = (if 1 \<le> monthsElapsed now (lastRoastReset u) then 0
                            else monthlyRoasts u)))
   \<and> map_sum id fst (checkRoastLimit now (updateUser d uid (\<lambda>u. u\<lparr>bonusCredits := b\<rparr>)) uid)
       = map_sum id fst (checkRoastLimit now d uid)"
  by (cases "findUserById d uid")
     (simp_all add: checkRoastLimit_def Let_def findUserById_updateUser)

text \<open>
  Claim C1, as the specification words it, fails: a free account that has used its three
  roasts of the month and holds five bonus credits is refused.
\<close>

theorem checkRoastLimit_bonus_counterexample:
  "map_sum id (canRoast \<circ> fst) (checkRoastLimit jan_later bonus_store 1) = Inr False
   \<and> 0 < bonusCredits bonus_user
   \<and> findUserById bonus_store 1 = Some bonus_user"
  by (simp add: checkRoastLimit_def findUserById_def bonus_store_def bonus_user_def
      exhausted_user_def monthsElapsed_def jan_def jan_later_def Let_def)



section \<open>Properties of the vision preprocessor\<close>

lemma convertPDFToImages_returns: "\<exists>imgs. convertPDFToImages fetch buf = Inr imgs"
  by (simp add: convertPDFToImages_def split: sum.splits)

lemma convertPDFToImages_caught:
  "convertPDFToImages_try fetch buf = Inl e \<Longrightarrow> convertPDFToImages fetch buf = Inr []"
  by (simp add: convertPDFToImages_def)

lemma convertPDFToImages_try_fails:
  "(fetch buf = Inl e \<longrightarrow> isl (convertPDFToImages_try fetch buf))
   \<and> (fetch buf = Inr r \<and> \<not> resp_ok r \<longrightarrow> isl (convertPDFToImages_try fetch buf))
   \<and> (fetch buf = Inr r \<and> resp_json r = Inl e \<longrightarrow> isl (convertPDFToImages_try fetch buf))
   \<and> (fetch buf = Inr r \<and> resp_json r = Inr j \<and> \<not> truthy (opt_get j ''success'') \<longrightarrow>
        isl (convertPDFToImages_try fetch buf))"
  by (auto simp: convertPDFToImages_try_def get_prop_def opt_get_def split: sum.splits)

lemma convertPDFToImages_passes:
  assumes "fetch buf = Inr r" "resp_ok r" "resp_json r = Inr j" "truthy (opt_get j ''success'')"
    "opt_get j ''images'' = JArr xs" "\<not> list_ex image_size_throws xs"
  shows "convertPDFToImages fetch buf = Inr xs"
proof -
  from assms(4) have nn: "\<not> nullish j" by (auto simp: opt_get_def split: if_splits)
  with assms show ?thesis
    by (simp add: convertPDFToImages_def convertPDFToImages_try_def get_prop_def opt_get_def
        log_image_sizes_def Let_def)
qed

lemma convertPDFToImages_pages:
  "convertPDFToImages (fetch_pages n) buf = Inr (replicate n (JStr ''/9j/4AAQ''))"
  by (simp add: convertPDFToImages_def convertPDFToImages_try_def fetch_pages_def resp_ok_def
      get_prop_def log_image_sizes_def image_size_throws_def Let_def list_ex_iff)

text \<open>
  Claim C2, as the code has it. The function always returns a list: the empty one, or
  the \<^verbatim>\<open>images\<close> array of the service's response as it came. So the result is never
  longer than what the service sent. And the function adds no bound of its own: a
  2xx answer with a truthy \<^verbatim>\<open>success\<close> and an array of images whose sizes can be
  logged is returned whole, however long it is; in particular an answer of \<open>n\<close> page
  images gives \<open>n\<close> images, for every \<open>n\<close>.
\<close>

theorem convertPDFToImages_length:
  "(\<exists>imgs. convertPDFToImages fetch buf = Inr imgs
      \<and> (imgs = [] \<or> imgs = service_images fetch buf)
      \<and> length imgs \<le> length (service_images fetch buf))
   \<and> (fetch buf = Inr r \<and> resp_ok r \<and> resp_json r = Inr j \<and> truthy (opt_get j ''success'')
        \<and> opt_get j ''images'' = JArr xs \<and> \<not> list_ex image_size_throws xs
      \<longrightarrow> convertPDFToImages fetch buf = Inr xs)
   \<and> convertPDFToImages (fetch_pages n) buf = Inr (replicate n (JStr ''/9j/4AAQ''))
   \<and> map_sum id length (convertPDFToImages (fetch_pages n) buf) = Inr n"
proof (intro conjI impI)
  show "\<exists>imgs. convertPDFToImages fetch buf = Inr imgs
      \<and> (imgs = [] \<or> imgs = service_images fetch buf)
      \<and> length imgs \<le> length (service_images fetch buf)"
    by (auto simp: convertPDFToImages_def convertPDFToImages_try_def service_images_def
        get_prop_def opt_get_def log_image_sizes_def Let_def
        split: sum.splits jsval.splits if_splits)
next
  assume "fetch buf = Inr r \<and> resp_ok r \<and> resp_json r = Inr j \<and> truthy (opt_get j ''success'')
        \<and> opt_get j ''images'' = JArr xs \<and> \<not> list_ex image_size_throws xs"
  then show "convertPDFToImages fetch buf = Inr xs"
    using convertPDFToImages_passes [of fetch buf r j xs] by blast
next
  show "convertPDFToImages (fetch_pages n) buf = Inr (replicate n (JStr ''/9j/4AAQ''))"
    by (rule convertPDFToImages_pages)
next
  show "map_sum id length (convertPDFToImages (fetch_pages n) buf) = Inr n"
    by (simp add: convertPDFToImages_pages)
qed

theorem convertPDFToImages_length_witness:
  "fetch_pages 5 [37, 80, 68, 70]
     = Inr \<lparr>resp_status = 200, resp_text = Inr [],
            resp_json = Inr (JObj [(''success'', JBool True),
                                   (''images'', JArr (replicate 5 (JStr ''/9j/4AAQ'')))])\<rparr>
   \<and> \<not> list_ex image_size_throws (replicate 5 (JStr ''/9j/4AAQ''))
   \<and> convertPDFToImages (fetch_pages 5) [37, 80, 68, 70] = Inr (replicate 5 (JStr ''/9j/4AAQ''))
   \<and> map_sum id length (convertPDFToImages (fetch_pages 2) [37, 80, 68, 70]) = Inr 2
   \<and> map_sum id length (convertPDFToImages (fetch_pages 7) [37, 80, 68, 70]) = Inr 7"
proof -
  let ?buf = "[37, 80, 68, 70] :: nat list"
  let ?j = "JObj [(''success'', JBool True), (''images'', JArr (replicate 5 (JStr ''/9j/4AAQ'')))]"
  let ?r = "\<lparr>resp_status = 200, resp_text = Inr [], resp_json = Inr ?j\<rparr>"
  have f: "fetch_pages 5 ?buf = Inr ?r"
    by (simp add: fetch_pages_def)
  have h: "resp_ok ?r" "resp_json ?r = Inr ?j" "truthy (opt_get ?j ''success'')"
      "opt_get ?j ''images'' = JArr (replicate 5 (JStr ''/9j/4AAQ''))"
    by (simp_all add: resp_ok_def opt_get_def)
  have l: "\<not> list_ex image_size_throws (replicate 5 (JStr ''/9j/4AAQ''))"
    by (simp add: list_ex_iff image_size_throws_def)
  from convertPDFToImages_length [of "fetch_pages 5" ?buf ?r ?j "replicate 5 (JStr ''/9j/4AAQ'')"]
    f h l
  have 1: "convertPDFToImages (fetch_pages 5) ?buf = Inr (replicate 5 (JStr ''/9j/4AAQ''))"
    by blast
  from convertPDFToImages_length [where n = 2 and buf = ?buf]
  have 2: "map_sum id length (convertPDFToImages (fetch_pages 2) ?buf) = Inr 2"
    by blast
  from convertPDFToImages_length [where n = 7 and buf = ?buf]
  have 3: "map_sum id length (convertPDFToImages (fetch_pages 7) ?buf) = Inr 7"
    by blast
  from f l 1 2 3 show ?thesis by blast
qed

text \<open>
  Claim C2, as the specification words it, fails: when the service answers with four
  page images, four are returned.
\<close>

theorem convertPDFToImages_four_pages_counterexample:
  "map_sum id length (convertPDFToImages (fetch_pages 4) [37, 80, 68, 70]) = Inr 4"
  by (simp add: convertPDFToImages_def convertPDFToImages_try_def fetch_pages_def resp_ok_def
      get_prop_def log_image_sizes_def image_size_throws_def Let_def list_ex_iff)

text \<open>
  Claim C3. The function returns on every behaviour of the service. Whenever the
  \<^verbatim>\<open>try\<close> block throws it returns the empty list, and it does throw when the request
  itself fails (network error, timeout), when the status is not 2xx, when the body is
  not JSON, and when \<^verbatim>\<open>success\<close> is false or missing.
\<close>

theorem convertPDFToImages_failure_empty:
  "(\<exists>imgs. convertPDFToImages fetch buf = Inr imgs)
   \<and> (convertPDFToImages_try fetch buf = Inl e \<longrightarrow> convertPDFToImages fetch buf = Inr [])
   \<and> (fetch buf = Inl e \<longrightarrow> convertPDFToImages fetch buf = Inr [])
   \<and> (fetch buf = Inr r \<and> \<not> resp_ok r \<longrightarrow> convertPDFToImages fetch buf = Inr [])
   \<and> (fetch buf = Inr r \<and> resp_json r = Inl e \<longrightarrow> convertPDFToImages fetch buf = Inr [])
   \<and> (fetch buf = Inr r \<and> resp_json r = Inr j \<and> \<not> truthy (opt_get j ''success'') \<longrightarrow>
        convertPDFToImages fetch buf = Inr [])"
proof -
  have caught: "isl (convertPDFToImages_try fetch buf) \<Longrightarrow> convertPDFToImages fetch buf = Inr []"
    by (cases "convertPDFToImages_try fetch buf") (simp_all add: convertPDFToImages_caught)
  show ?thesis
    using convertPDFToImages_returns [of fetch buf] convertPDFToImages_caught [of fetch buf e]
      convertPDFToImages_try_fails [of fetch buf e r j] caught
    by blast
qed

theorem convertPDFToImages_failure_empty_witness:
  "fetch_down [37, 80, 68, 70] = Inl (JsError ''ECONNREFUSED'')
   \<and> convertPDFToImages_try fetch_unavailable [37, 80, 68, 70]
       = Inl (HttpError 503 ''Service Unavailable'')
   \<and> convertPDFToImages fetch_down [37, 80, 68, 70] = Inr []
   \<and> \<not> resp_ok \<lparr>resp_status = 503, resp_text = Inr ''Service Unavailable'',
                  resp_json = Inl (JsError ''Unexpected token S in JSON'')\<rparr>
   \<and> convertPDFToImages fetch_unavailable [37, 80, 68, 70] = Inr []
   \<and> convertPDFToImages fetch_garbled [37, 80, 68, 70] = Inr []
   \<and> \<not> truthy (opt_get (JObj [(''success'', JBool False), (''error'', JStr ''bad pdf'')])
                 ''success'')
   \<and> convertPDFToImages fetch_unsuccessful [37, 80, 68, 70] = Inr []"
proof -
  let ?buf = "[37, 80, 68, 70] :: nat list"
  let ?r503 = "\<lparr>resp_status = 503, resp_text = Inr ''Service Unavailable'',
                 resp_json = Inl (JsError ''Unexpected token S in JSON'')\<rparr>"
  let ?r200 = "\<lparr>resp_status = 200, resp_text = Inr ''<html>'',
                 resp_json = Inl (JsError ''Unexpected token < in JSON'')\<rparr>"
  let ?j = "JObj [(''success'', JBool False), (''error'', JStr ''bad pdf'')]"
  let ?rno = "\<lparr>resp_status = 200, resp_text = Inr [], resp_json = Inr ?j\<rparr>"
  have d: "fetch_down ?buf = Inl (JsError ''ECONNREFUSED'')"
    by (simp add: fetch_down_def)
  have u: "fetch_unavailable ?buf = Inr ?r503" "\<not> resp_ok ?r503"
    by (simp_all add: fetch_unavailable_def resp_ok_def)
  have g: "fetch_garbled ?buf = Inr ?r200"
      "resp_json ?r200 = Inl (JsError ''Unexpected token < in JSON'')"
    by (simp_all add: fetch_garbled_def)
  have n: "fetch_unsuccessful ?buf = Inr ?rno" "resp_json ?rno = Inr ?j"
      "\<not> truthy (opt_get ?j ''success'')"
    by (simp_all add: fetch_unsuccessful_def opt_get_def)
  have t: "convertPDFToImages_try fetch_unavailable ?buf
       = Inl (HttpError 503 ''Service Unavailable'')"
    by (simp add: convertPDFToImages_try_def fetch_unavailable_def resp_ok_def)
  from t convertPDFToImages_failure_empty
      [of fetch_unavailable ?buf "HttpError 503 ''Service Unavailable''"]
  have 0: "convertPDFToImages fetch_unavailable ?buf = Inr []" by blast
  from d convertPDFToImages_failure_empty [of fetch_down ?buf "JsError ''ECONNREFUSED''"]
  have 1: "convertPDFToImages fetch_down ?buf = Inr []" by blast
  from u convertPDFToImages_failure_empty [of fetch_unavailable ?buf _ ?r503]
  have 2: "convertPDFToImages fetch_unavailable ?buf = Inr []" by blast
  from g convertPDFToImages_failure_empty
      [of fetch_garbled ?buf "JsError ''Unexpected token < in JSON''" ?r200]
  have 3: "convertPDFToImages fetch_garbled ?buf = Inr []" by blast
  from n convertPDFToImages_failure_empty [of fetch_unsuccessful ?buf _ ?rno ?j]
  have 4: "convertPDFToImages fetch_unsuccessful ?buf = Inr []" by blast
  from d t u(2) n(3) 0 1 2 3 4 show ?thesis by blast
qed

section \<open>Properties of the ATS score\<close>

lemma add_if_nonneg: "0 \<le> n \<Longrightarrow> 0 \<le> s \<Longrightarrow> 0 \<le> add_if c n s"
  by (simp add: add_if_def)

lemma calculateATSScore_bounds:
  "calculateATSScore pos d j = Inr s \<Longrightarrow> 0 \<le> s \<and> s \<le> 100"
  by (auto simp: calculateATSScore_def Let_def add_if_nonneg split: sum.splits)

lemma js_some_test_digits:
  "list_all (\<lambda>a. \<not> to_string_throws a) xs \<Longrightarrow> \<not> isl (js_some test_digits xs)"
  by (induction xs) (auto simp: test_digits_def)

lemma quantified_shaped: "entry_shaped exp \<Longrightarrow> \<not> isl (quantified exp)"
  by (cases "own_prop exp ''achievements''")
     (simp_all add: entry_shaped_def quantified_def get_prop_def js_some_test_digits)

lemma js_some_quantified:
  "list_all entry_shaped xs \<Longrightarrow> \<not> isl (js_some quantified xs)"
proof (induction xs)
  case Nil
  then show ?case by simp
next
  case (Cons x xs)
  then have "\<not> isl (quantified x)" using quantified_shaped by simp
  with Cons show ?case by (cases "quantified x") auto
qed

lemma hasQuantifiedAchievements_shaped:
  "entries_shaped v \<Longrightarrow> \<not> isl (hasQuantifiedAchievements v)"
  by (cases v) (simp_all add: hasQuantifiedAchievements_def js_some_quantified)

lemma js_gt0_length: "array_or_absent v \<Longrightarrow> \<not> isl (js_gt0 pos (opt_get v ''length''))"
  by (cases v) (simp_all add: opt_get_def)

lemma entries_array_or_absent: "entries_shaped v \<Longrightarrow> array_or_absent v"
  by (cases v) simp_all

lemma calculateATSScore_returns:
  assumes a: "resume_shaped d"
  shows "\<not> isl (calculateATSScore pos d j)"
proof -
  from a have "\<not> isl (js_gt0 pos (opt_get (own_prop d ''experience'') ''length''))"
    by (simp add: resume_shaped_def js_gt0_length entries_array_or_absent)
  moreover from a have "\<not> isl (js_gt0 pos (opt_get (own_prop d ''education'') ''length''))"
    by (simp add: resume_shaped_def js_gt0_length)
  moreover from a have
    "\<not> isl (js_gt0 pos (opt_get (opt_get (own_prop d ''skills'') ''technical'') ''length''))"
    by (simp add: resume_shaped_def js_gt0_length)
  moreover from a have "\<not> isl (hasQuantifiedAchievements (own_prop d ''experience''))"
    by (simp add: resume_shaped_def hasQuantifiedAchievements_shaped)
  moreover from a have "\<not> nullish d" by (simp add: resume_shaped_def)
  ultimately show ?thesis
    by (auto simp: calculateATSScore_def get_prop_def Let_def split: sum.splits)
qed

lemma js_some_error: "js_some f xs = Inl e \<Longrightarrow> \<exists>x \<in> set xs. f x = Inl e"
  by (induction xs) (auto split: sum.splits if_splits)

lemma test_digits_error: "test_digits v = Inl e \<Longrightarrow> e = TypeError"
  by (auto simp: test_digits_def split: if_splits)

lemma quantified_error: "quantified v = Inl e \<Longrightarrow> e = TypeError"
  by (auto simp: quantified_def get_prop_def split: if_splits jsval.splits
      dest!: js_some_error test_digits_error)

lemma hasQuantifiedAchievements_error: "hasQuantifiedAchievements v = Inl e \<Longrightarrow> e = TypeError"
  by (auto simp: hasQuantifiedAchievements_def split: jsval.splits
      dest!: js_some_error quantified_error)

lemma js_gt0_error: "js_gt0 pos v = Inl e \<Longrightarrow> e = TypeError"
  by (cases v) (auto split: if_splits)

lemma calculateATSScore_error: "calculateATSScore pos d j = Inl e \<Longrightarrow> e = TypeError"
  by (auto simp: calculateATSScore_def get_prop_def Let_def split: sum.splits if_splits
      dest: js_gt0_error hasQuantifiedAchievements_error)

lemma calculateATSScore_full_resume:
  "calculateATSScore never_positive full_resume ''engineer'' = Inr 100
   \<and> resume_shaped full_resume"
  by code_simp

text \<open>
  Claim C10, as the code has it. Whenever \<^verbatim>\<open>calculateATSScore\<close> returns, the score is
  an integer between 0 and 100. It does not return on every input: it throws a
  TypeError, and only on data that is not of the expected shape.
\<close>

theorem calculateATSScore_range:
  "(case calculateATSScore pos d j of
      Inr s \<Rightarrow> 0 \<le> s \<and> s \<le> 100
    | Inl e \<Rightarrow> e = TypeError \<and> \<not> resume_shaped d)"
  using calculateATSScore_bounds [of pos d j] calculateATSScore_error [of pos d j]
    calculateATSScore_returns [of d pos j]
  by (cases "calculateATSScore pos d j") auto

text \<open>
  Claim C10, as it is worded, fails: no score is returned for \<^verbatim>\<open>null\<close> data, nor for
  data whose \<^verbatim>\<open>experience\<close> is a text rather than an array.
\<close>

theorem calculateATSScore_throws_counterexample:
  "calculateATSScore never_positive JNull ''engineer'' = Inl TypeError
   \<and> calculateATSScore never_positive prose_experience_resume ''engineer'' = Inl TypeError"
  by (simp add: calculateATSScore_def get_prop_def opt_get_def prose_experience_resume_def
      hasQuantifiedAchievements_def Let_def)

section \<open>Properties of the optimized-resume route\<close>

lemma latest_None: "latest xs = None \<longleftrightarrow> xs = []"
  by (induction xs) (auto split: option.splits)

lemma llmCall_create_Inr:
  "llmCall_create now s uid m t c = Inr (call, s1) \<Longrightarrow>
     lc_id call = nextId s \<and> accounts s1 = accounts s
     \<and> generatedResumes s1 = generatedResumes s \<and> llmCalls s1 = llmCalls s @ [call]
     \<and> llmMessages s1 = llmMessages s"
  by (auto simp: llmCall_create_def Let_def split: if_splits)

lemma llmMessage_create_Inr:
  "llmMessage_create now s i r c k t = Inr s1 \<Longrightarrow>
     accounts s1 = accounts s \<and> generatedResumes s1 = generatedResumes s
     \<and> llmCalls s1 = llmCalls s \<and> length (llmMessages s1) = Suc (length (llmMessages s))"
  by (auto simp: llmMessage_create_def Let_def split: if_splits)

lemma generatedResume_create_Inr:
  "generatedResume_create now s uid tid h content d score kws = Inr (row, s1) \<Longrightarrow>
     accounts s1 = accounts s \<and> llmCalls s1 = llmCalls s \<and> llmMessages s1 = llmMessages s
     \<and> generatedResumes s1 = generatedResumes s @ [row]
     \<and> \<not> list_ex (\<lambda>r. gr_contentHash r = h) (generatedResumes s)
     \<and> gr_id row = nextId s \<and> gr_userId row = Some uid \<and> gr_contentHash row = h
     \<and> gr_data row = d \<and> gr_createdAt row = now"
  by (auto simp: generatedResume_create_def Let_def split: if_splits)

lemma generatedResume_create_present:
  "list_ex (\<lambda>r. gr_contentHash r = h) (generatedResumes s) \<Longrightarrow>
   isl (generatedResume_create now s uid tid h content d score kws)"
  by (simp add: generatedResume_create_def)

lemma store_extraction_tables:
  assumes "store_extraction env now s u h prompt resp score kws content = ((c, g), s')"
  shows "accounts s' = accounts s
     \<and> c = (if isl (llmCall_create now s (user_id u) (SONNET env) (llm_totalTokens resp)
                       (llm_cost resp))
            then None else Some (nextId s))
     \<and> length (llmCalls s')
         = (if isl (llmCall_create now s (user_id u) (SONNET env) (llm_totalTokens resp)
                      (llm_cost resp))
            then length (llmCalls s) else Suc (length (llmCalls s)))
     \<and> (if list_ex (\<lambda>r. gr_contentHash r = h) (generatedResumes s)
        then g = None \<and> generatedResumes s' = generatedResumes s
        else (g = None \<and> generatedResumes s' = generatedResumes s)
           \<or> (\<exists>row. g = Some (gr_id row) \<and> generatedResumes s' = generatedResumes s @ [row]
               \<and> gr_userId row = Some (user_id u) \<and> gr_contentHash row = h
               \<and> gr_data row = llm_data resp \<and> gr_createdAt row = now))"
proof (cases "llmCall_create now s (user_id u) (SONNET env) (llm_totalTokens resp) (llm_cost resp)")
  case (Inl e)
  with assms show ?thesis by (simp add: store_extraction_def Let_def)
next
  case (Inr p)
  obtain call s1 where p: "p = (call, s1)" by (cases p)
  note c1 = llmCall_create_Inr [OF Inr [unfolded p]]
  show ?thesis
  proof (cases "llmMessage_create now s1 (lc_id call) Role_user (Text prompt) 0
                  ((llm_totalTokens resp * 8) div 10)")
    case (Inl e)
    with assms Inr p c1 show ?thesis by (simp add: store_extraction_def Let_def)
  next
    case m1: (Inr s2)
    note c2 = llmMessage_create_Inr [OF m1]
    show ?thesis
    proof (cases "llmMessage_create now s2 (lc_id call) Role_assistant
                    (Stringified (llm_data resp)) 1 ((llm_totalTokens resp * 2) div 10)")
      case (Inl e)
      with assms Inr p m1 c1 c2 show ?thesis by (simp add: store_extraction_def Let_def)
    next
      case m2: (Inr s3)
      note c3 = llmMessage_create_Inr [OF m2]
      show ?thesis
      proof (cases "generatedResume_create now s3 (user_id u) templateId h content
                      (llm_data resp) score kws")
        case (Inl e)
        with assms Inr p m1 m2 c1 c2 c3 show ?thesis
          by (simp add: store_extraction_def Let_def)
      next
        case r: (Inr q)
        obtain row s4 where q: "q = (row, s4)" by (cases q)
        note c4 = generatedResume_create_Inr [OF r [unfolded q]]
        from assms Inr p m1 m2 r q have "c = Some (lc_id call)" "g = Some (gr_id row)" "s' = s4"
          by (simp_all add: store_extraction_def Let_def)
        with Inr c1 c2 c3 c4 show ?thesis by auto
      qed
    qed
  qed
qed

lemma generate_failure_store:
  "generate env now s u body t h = (Failure c m, s') \<Longrightarrow> s' = s"
  by (auto simp: generate_def Let_def internal_error_def split: sum.splits prod.splits)

lemma generate_success:
  "generate env now s u body t h = (Success r, s') \<Longrightarrow>
     \<exists>prompt resp score kws content c g.
       build_prompt env (jobDescription body) t (analysisData body) = Inr prompt
       \<and> callAnthropicResumeOptimization env prompt = Inr resp
       \<and> calculateATSScore (string_positive env) (llm_data resp)
           (or_empty (jobDescription body)) = Inr score
       \<and> extractKeywordsMatched env (llm_data resp) (or_empty (jobDescription body)) = Inr kws
       \<and> generateOptimizedResumeContent env (llm_data resp) templateId = Inr content
       \<and> store_extraction env now s u h prompt resp score kws content = ((c, g), s')
       \<and> r = \<lparr>body_data = llm_data resp, cached = False, resumeId = g,
               metadata = Generated (llm_totalTokens resp) (llm_processingTime resp)
                 (llm_cost resp) score kws c\<rparr>"
  by (auto simp: generate_def Let_def internal_error_def split: sum.splits prod.splits)

lemma generate_stored:
  assumes "generate env now s u body t h = (Success r, s')" "resumeId r = Some rid"
  shows "accounts s' = accounts s
     \<and> \<not> list_ex (\<lambda>x. gr_contentHash x = h) (generatedResumes s)
     \<and> (\<exists>row. generatedResumes s' = generatedResumes s @ [row] \<and> gr_id row = rid
            \<and> gr_userId row = Some (user_id u) \<and> gr_contentHash row = h)"
proof -
  from generate_success [OF assms(1)] obtain prompt resp score kws content c g where
    se: "store_extraction env now s u h prompt resp score kws content = ((c, g), s')"
    and r: "r = \<lparr>body_data = llm_data resp, cached = False, resumeId = g,
               metadata = Generated (llm_totalTokens resp) (llm_processingTime resp)
                 (llm_cost resp) score kws c\<rparr>"
    by blast
  from r assms(2) have g: "g = Some rid" by simp
  from store_extraction_tables [OF se] g show ?thesis
    by (auto split: if_splits)
qed

lemma generate_rows:
  assumes "generate env now s u body t h = (r, s')"
  shows "generatedResumes s' = generatedResumes s
     \<or> (\<exists>row. generatedResumes s' = generatedResumes s @ [row] \<and> gr_contentHash row = h
            \<and> list_all (\<lambda>x. gr_contentHash x \<noteq> h) (generatedResumes s))"
proof (cases r)
  case (Failure c m)
  with assms generate_failure_store show ?thesis by blast
next
  case (Success b)
  with assms generate_success [of env now s u body t h b s']
  obtain prompt resp score kws content c g
    where se: "store_extraction env now s u h prompt resp score kws content = ((c, g), s')"
    by blast
  from store_extraction_tables [OF se] show ?thesis
    by (auto simp: list_ex_iff list_all_iff split: if_splits)
qed

lemma POST_rows:
  assumes "request_json req = Inr body"
  shows "generatedResumes (snd (POST H env now s req)) = generatedResumes s
   \<or> (\<exists>row. generatedResumes (snd (POST H env now s req)) = generatedResumes s @ [row]
          \<and> gr_contentHash row
              = contentHash H (truncateResumeText (or_empty (resumeText body)))
                  (jobDescription body) (analysisId body)
          \<and> list_all (\<lambda>x. gr_contentHash x \<noteq> gr_contentHash row) (generatedResumes s))"
proof -
  let ?t = "truncateResumeText (or_empty (resumeText body))"
  let ?h = "contentHash H ?t (jobDescription body) (analysisId body)"
  have g: "generatedResumes (snd (generate env now s u body ?t ?h)) = generatedResumes s
   \<or> (\<exists>row. generatedResumes (snd (generate env now s u body ?t ?h)) = generatedResumes s @ [row]
          \<and> gr_contentHash row = ?h
          \<and> list_all (\<lambda>x. gr_contentHash x \<noteq> gr_contentHash row) (generatedResumes s))" for u
    using generate_rows [of env now s u body ?t ?h "fst (generate env now s u body ?t ?h)"
        "snd (generate env now s u body ?t ?h)"]
    by auto
  show ?thesis
    using assms by (auto simp: POST_def Let_def g split: option.splits)
qed

lemma POST_no_body:
  "request_json req = Inl e \<Longrightarrow> snd (POST H env now s req) = s"
  by (simp add: POST_def)

lemma POST_cache_hit:
  assumes "\<not> falsy (session_email req)" "request_json req = Inr body"
    "\<not> falsy (resumeText body)"
    "findUserByEmail (accounts s) (or_empty (session_email req)) = Some u"
    "\<not> bypassCache body"
    "findFirstGeneratedResume s (user_id u)
       (contentHash H (truncateResumeText (or_empty (resumeText body))) (jobDescription body)
          (analysisId body)) = Some row"
  shows "POST H env now s req =
     (Success \<lparr>body_data = gr_data row, cached = True, resumeId = Some (gr_id row),
               metadata = FromDatabase (score_or_default (gr_atsScore row))
                            (gr_keywordsMatched row)\<rparr>, s)"
  using assms by (simp add: POST_def Let_def)

lemma POST_miss:
  assumes "\<not> falsy (session_email req)" "request_json req = Inr body"
    "\<not> falsy (resumeText body)"
    "findUserByEmail (accounts s) (or_empty (session_email req)) = Some u"
    "bypassCache body \<or> findFirstGeneratedResume s (user_id u)
       (contentHash H (truncateResumeText (or_empty (resumeText body))) (jobDescription body)
          (analysisId body)) = None"
  shows "POST H env now s req =
     generate env now s u body (truncateResumeText (or_empty (resumeText body)))
       (contentHash H (truncateResumeText (or_empty (resumeText body))) (jobDescription body)
          (analysisId body))"
  using assms by (auto simp: POST_def Let_def)

lemma POST_success_cases:
  assumes "POST H env now s req = (Success r, s')"
  shows "\<exists>body u. \<not> falsy (session_email req) \<and> request_json req = Inr body
     \<and> \<not> falsy (resumeText body)
     \<and> findUserByEmail (accounts s) (or_empty (session_email req)) = Some u
     \<and> ((\<exists>row. \<not> bypassCache body
              \<and> findFirstGeneratedResume s (user_id u)
                   (contentHash H (truncateResumeText (or_empty (resumeText body)))
                      (jobDescription body) (analysisId body)) = Some row
              \<and> s' = s \<and> cached r \<and> resumeId r = Some (gr_id row))
         \<or> ((bypassCache body \<or> findFirstGeneratedResume s (user_id u)
                   (contentHash H (truncateResumeText (or_empty (resumeText body)))
                      (jobDescription body) (analysisId body)) = None)
             \<and> generate env now s u body (truncateResumeText (or_empty (resumeText body)))
                  (contentHash H (truncateResumeText (or_empty (resumeText body)))
                      (jobDescription body) (analysisId body)) = (Success r, s')))"
  using assms
  by (auto simp: POST_def Let_def internal_error_def split: if_splits sum.splits option.splits)

lemma findFirst_after_create:
  assumes "findFirstGeneratedResume s uid h = None"
    "generatedResumes s' = generatedResumes s @ [row]"
    "gr_userId row = Some uid" "gr_contentHash row = h"
  shows "findFirstGeneratedResume s' uid h = Some row"
  using assms by (simp add: findFirstGeneratedResume_def latest_None)

lemma truncateResumeText_Nil: "truncateResumeText x = [] \<longleftrightarrow> x = []"
  by (auto simp: truncateResumeText_def truncation_marker_def)

lemma POST_repeat:
  assumes first: "POST H env1 now1 s req1 = (Success r1, s1)"
    and stored: "resumeId r1 = Some rid"
    and b1: "request_json req1 = Inr body1" "\<not> bypassCache body1"
    and b2: "request_json req2 = Inr body2" "\<not> bypassCache body2"
    and same: "session_email req2 = session_email req1"
      "truncateResumeText (or_empty (resumeText body2))
         = truncateResumeText (or_empty (resumeText body1))"
      "or_empty (jobDescription body2) = or_empty (jobDescription body1)"
      "or_empty (analysisId body2) = or_empty (analysisId body1)"
  shows "\<exists>r2. POST H env2 now2 s1 req2 = (Success r2, s1) \<and> cached r2 \<and> resumeId r2 = Some rid"
proof -
  let ?h = "contentHash H (truncateResumeText (or_empty (resumeText body1)))
              (jobDescription body1) (analysisId body1)"
  have h2: "contentHash H (truncateResumeText (or_empty (resumeText body2)))
              (jobDescription body2) (analysisId body2) = ?h"
    using same by (simp add: contentHash_def hashMaterial_def)
  from POST_success_cases [OF first] b1 obtain u where
    pre: "\<not> falsy (session_email req1)" "\<not> falsy (resumeText body1)"
      "findUserByEmail (accounts s) (or_empty (session_email req1)) = Some u"
    and cases: "(\<exists>row. findFirstGeneratedResume s (user_id u) ?h = Some row
              \<and> s1 = s \<and> cached r1 \<and> resumeId r1 = Some (gr_id row))
         \<or> (findFirstGeneratedResume s (user_id u) ?h = None
             \<and> generate env1 now1 s u body1 (truncateResumeText (or_empty (resumeText body1))) ?h
                  = (Success r1, s1))"
    by auto
  from pre(2) same(2) have t2: "\<not> falsy (resumeText body2)"
    using truncateResumeText_Nil [of "or_empty (resumeText body2)"]
      truncateResumeText_Nil [of "or_empty (resumeText body1)"]
    by (simp add: falsy_def)
  from cases show ?thesis
  proof
    assume "\<exists>row. findFirstGeneratedResume s (user_id u) ?h = Some row
              \<and> s1 = s \<and> cached r1 \<and> resumeId r1 = Some (gr_id row)"
    then obtain row where row: "findFirstGeneratedResume s (user_id u) ?h = Some row" "s1 = s"
        "resumeId r1 = Some (gr_id row)"
      by blast
    with stored have "gr_id row = rid" by simp
    with POST_cache_hit [of req2 body2 s1 u H row env2 now2] pre t2 b2 same(1) h2 row
    show ?thesis by simp
  next
    assume "findFirstGeneratedResume s (user_id u) ?h = None
             \<and> generate env1 now1 s u body1 (truncateResumeText (or_empty (resumeText body1))) ?h
                  = (Success r1, s1)"
    then have miss: "findFirstGeneratedResume s (user_id u) ?h = None"
      and gen: "generate env1 now1 s u body1 (truncateResumeText (or_empty (resumeText body1))) ?h
                  = (Success r1, s1)"
      by blast+
    from generate_stored [OF gen stored] obtain row where
      acc: "accounts s1 = accounts s"
      and row: "generatedResumes s1 = generatedResumes s @ [row]" "gr_id row = rid"
        "gr_userId row = Some (user_id u)" "gr_contentHash row = ?h"
      by blast
    from findFirst_after_create [OF miss row(1) row(3) row(4)]
    have "findFirstGeneratedResume s1 (user_id u) ?h = Some row" .
    with POST_cache_hit [of req2 body2 s1 u H row env2 now2] pre t2 b2 same(1) h2 acc row(2)
    show ?thesis by simp
  qed
qed






text \<open>
  Claim C4, as the code has it. When a first request succeeded with a stored or found
  row, that is with a \<^verbatim>\<open>resumeId\<close> that is not \<^verbatim>\<open>null\<close>, a second request of the same
  session with the same normalized inputs (the truncated resume text, the job
  description and the analysis id, an absent one counting as empty; the template id is
  fixed), neither one bypassing the cache, answers from the cache with that same
  \<^verbatim>\<open>resumeId\<close> and writes nothing. The provider, the clock and the analysis data of
  the second request are free.
\<close>

theorem POST_dedup:
  "POST H env1 now1 s req1 = (Success r1, s1) \<and> resumeId r1 = Some rid
   \<and> request_json req1 = Inr body1 \<and> \<not> bypassCache body1
   \<and> request_json req2 = Inr body2 \<and> \<not> bypassCache body2
   \<and> session_email req2 = session_email req1
   \<and> truncateResumeText (or_empty (resumeText body2))
       = truncateResumeText (or_empty (resumeText body1))
   \<and> or_empty (jobDescription body2) = or_empty (jobDescription body1)
   \<and> or_empty (analysisId body2) = or_empty (analysisId body1)
   \<longrightarrow> (\<exists>r2. POST H env2 now2 s1 req2 = (Success r2, s1) \<and> cached r2
            \<and> resumeId r2 = Some rid)"
  using POST_repeat [of H env1 now1 s req1 r1 s1 rid body1 req2 body2 env2 now2] by blast

theorem POST_dedup_witness:
  "fst (POST identity_digest demo_env 100 empty_store (request_of bob (plain_body ''My resume'')))
     = Success \<lparr>body_data = full_resume, cached = False, resumeId = Some 14,
                metadata = Generated 1000 1200 15000 100 [] (Some 11)\<rparr>
   \<and> (\<exists>r2. POST identity_digest demo_env 200
              (snd (POST identity_digest demo_env 100 empty_store
                      (request_of bob (plain_body ''My resume''))))
              (request_of bob (plain_body ''My resume''))
            = (Success r2, snd (POST identity_digest demo_env 100 empty_store
                                  (request_of bob (plain_body ''My resume''))))
          \<and> cached r2 \<and> resumeId r2 = Some 14)"
proof -
  let ?req = "request_of bob (plain_body ''My resume'')"
  let ?r1 = "\<lparr>body_data = full_resume, cached = False, resumeId = Some 14,
               metadata = Generated 1000 1200 15000 100 [] (Some 11)\<rparr>"
  let ?s1 = "snd (POST identity_digest demo_env 100 empty_store ?req)"
  have f: "fst (POST identity_digest demo_env 100 empty_store ?req) = Success ?r1"
    by code_simp
  then have first: "POST identity_digest demo_env 100 empty_store ?req = (Success ?r1, ?s1)"
    by (simp add: prod_eq_iff)
  have b: "request_json ?req = Inr (plain_body ''My resume'')"
      "\<not> bypassCache (plain_body ''My resume'')"
    by (simp_all add: request_of_def plain_body_def)
  from POST_dedup [of identity_digest demo_env 100 empty_store ?req ?r1 ?s1 14
      "plain_body ''My resume''" ?req "plain_body ''My resume''" demo_env 200] first b
  have "\<exists>r2. POST identity_digest demo_env 200 ?s1 ?req = (Success r2, ?s1) \<and> cached r2
            \<and> resumeId r2 = Some 14"
    by simp
  with f show ?thesis by blast
qed

text \<open>
  Claim C4, as the specification words it, fails. The resume row for this text belongs
  to another account, so the first request's insert is rejected and swallowed: the
  request succeeds without a \<^verbatim>\<open>resumeId\<close>, and the identical second request is again
  answered uncached.
\<close>

theorem POST_dedup_counterexample:
  "fst (POST identity_digest demo_env 100 (store_with_row 1)
          (request_of bob (plain_body ''My resume'')))
     = Success \<lparr>body_data = full_resume, cached = False, resumeId = None,
                metadata = Generated 1000 1200 15000 100 [] (Some 11)\<rparr>
   \<and> fst (POST identity_digest demo_env 200
           (snd (POST identity_digest demo_env 100 (store_with_row 1)
                   (request_of bob (plain_body ''My resume''))))
           (request_of bob (plain_body ''My resume'')))
     = Success \<lparr>body_data = full_resume, cached = False, resumeId = None,
                metadata = Generated 1000 1200 15000 100 [] (Some 14)\<rparr>"
  by code_simp







section \<open>Properties that span all operations\<close>



lemma delete_extractedResumes_rows:
  "list_all2 (\<lambda>n old. n = old \<or> n = old\<lparr>gr_extractedResumeId := None\<rparr>)
     (generatedResumes (delete_extractedResumes P s)) (generatedResumes s)"
  by (simp add: delete_extractedResumes_def Let_def list_all2_map1 list_all2_same
      split: option.splits)

lemma delete_resumes_rows:
  "list_all2 (\<lambda>n old. n = old \<or> n = old\<lparr>gr_extractedResumeId := None\<rparr>)
     (generatedResumes (delete_resumes P s)) (generatedResumes s)"
  using delete_extractedResumes_rows
    [of "\<lambda>e. List.member (map rs_id (filter P (resumes s))) (er_resumeId e)"
        "s\<lparr>resumes := filter (\<lambda>r. \<not> P r) (resumes s)\<rparr>"]
  by (simp add: delete_resumes_def Let_def)

lemma run_delete_rows:
  "run_delete s dop = Inr s' \<Longrightarrow>
   list_all2 (\<lambda>n old. n = old \<or> n = old\<lparr>gr_extractedResumeId := None\<rparr>)
     (generatedResumes s') (generatedResumes s)"
  by (cases dop) (auto simp: delete_extractedResumes_rows delete_resumes_rows split: if_splits)


lemma filter_gone:
  "filter (\<lambda>e. e \<in> set xs \<longrightarrow> P e) xs = filter P xs"
  by (rule filter_cong) auto

lemma deleted_extracted_delete:
  "deleted_extracted s (delete_extractedResumes P s) = map er_id (filter P (extractedResumes s))"
  unfolding deleted_extracted_def
  by (simp add: delete_extractedResumes_def Let_def filter_gone)

lemma delete_extractedResumes_exact:
  "extractedResumes (delete_extractedResumes P s) = filter (\<lambda>e. \<not> P e) (extractedResumes s)"
  "resumes (delete_extractedResumes P s) = resumes s"
  "generatedResumes (delete_extractedResumes P s)
     = map (clear_reference (deleted_extracted s (delete_extractedResumes P s)))
         (generatedResumes s)"
  unfolding deleted_extracted_delete
  by (simp_all add: delete_extractedResumes_def Let_def clear_reference_def [abs_def])

lemma deleted_resumes_delete:
  "deleted_resumes s (delete_resumes P s) = map rs_id (filter P (resumes s))"
  unfolding deleted_resumes_def
  by (simp add: delete_resumes_def delete_extractedResumes_def Let_def filter_gone)

lemma deleted_extracted_resumes:
  "deleted_extracted s (delete_resumes P s)
     = map er_id (filter (\<lambda>e. List.member (map rs_id (filter P (resumes s))) (er_resumeId e))
                    (extractedResumes s))"
  unfolding deleted_extracted_def
  by (simp add: delete_resumes_def delete_extractedResumes_def Let_def filter_gone)

lemma delete_resumes_exact:
  "resumes (delete_resumes P s) = filter (\<lambda>r. \<not> P r) (resumes s)"
  "extractedResumes (delete_resumes P s)
     = filter (\<lambda>e. \<not> List.member (deleted_resumes s (delete_resumes P s)) (er_resumeId e))
         (extractedResumes s)"
  "generatedResumes (delete_resumes P s)
     = map (clear_reference (deleted_extracted s (delete_resumes P s))) (generatedResumes s)"
  unfolding deleted_resumes_delete deleted_extracted_resumes
  by (simp_all add: delete_resumes_def delete_extractedResumes_def Let_def
      clear_reference_def [abs_def] cong: if_cong option.case_cong)

lemma run_delete_exact:
  assumes "run_delete s dop = Inr s'"
  shows "resumes s' = filter (\<lambda>r. \<not> resume_selected dop r) (resumes s)"
    and "extractedResumes s'
     = filter (\<lambda>e. \<not> extracted_selected dop e
                   \<and> \<not> List.member (deleted_resumes s s') (er_resumeId e))
         (extractedResumes s)"
    and "generatedResumes s' = map (clear_reference (deleted_extracted s s')) (generatedResumes s)"
  using assms
  by (cases dop; auto simp: delete_extractedResumes_exact delete_resumes_exact deleted_resumes_def
      split: if_splits)+

lemma member_map_filter:
  "List.member (map f (filter Q xs)) i = list_ex (\<lambda>e. f e = i \<and> Q e) xs"
  by (auto simp: list_ex_iff)

lemma run_delete_gone:
  assumes "run_delete s dop = Inr s'"
  shows "List.member (deleted_extracted s s') i
         = list_ex (\<lambda>e. er_id e = i
                        \<and> (extracted_selected dop e
                           \<or> list_ex (\<lambda>r. rs_id r = er_resumeId e \<and> resume_selected dop r)
                               (resumes s)))
             (extractedResumes s)"
proof -
  have d: "deleted_resumes s s' = map rs_id (filter (resume_selected dop) (resumes s))"
    unfolding deleted_resumes_def run_delete_exact(1) [OF assms]
    by (simp add: filter_gone)
  have "deleted_extracted s s'
        = map er_id (filter (\<lambda>e. extracted_selected dop e
                                  \<or> List.member (deleted_resumes s s') (er_resumeId e))
                       (extractedResumes s))"
    unfolding deleted_extracted_def run_delete_exact(2) [OF assms]
    by (rule arg_cong [where f = "map er_id"], rule filter_cong) auto
  then show ?thesis
    by (simp only: d member_map_filter)
qed

lemma run_delete_reference:
  assumes "run_delete s dop = Inr s'" "k < length (generatedResumes s)"
  shows "generatedResumes s' ! k
         = (case gr_extractedResumeId (generatedResumes s ! k) of
              None \<Rightarrow> generatedResumes s ! k
            | Some i \<Rightarrow>
                if list_ex (\<lambda>e. er_id e = i
                        \<and> (extracted_selected dop e
                           \<or> list_ex (\<lambda>r. rs_id r = er_resumeId e \<and> resume_selected dop r)
                               (resumes s)))
                     (extractedResumes s)
                then (generatedResumes s ! k)\<lparr>gr_extractedResumeId := None\<rparr>
                else generatedResumes s ! k)"
proof -
  from assms(2) have "generatedResumes s' ! k
      = clear_reference (deleted_extracted s s') (generatedResumes s ! k)"
    by (simp add: run_delete_exact(3) [OF assms(1)])
  then show ?thesis
    by (simp only: clear_reference_def run_delete_gone [OF assms(1)])
qed

lemma run_delete_extracted:
  assumes "run_delete s dop = Inr s'"
  shows "extractedResumes s'
     = filter (\<lambda>e. \<not> extracted_selected dop e
                   \<and> \<not> list_ex (\<lambda>r. rs_id r = er_resumeId e \<and> resume_selected dop r)
                         (resumes s))
         (extractedResumes s)"
proof -
  have d: "deleted_resumes s s' = map rs_id (filter (resume_selected dop) (resumes s))"
    unfolding deleted_resumes_def run_delete_exact(1) [OF assms]
    by (simp add: filter_gone)
  show ?thesis
    by (simp only: run_delete_exact(2) [OF assms] d member_map_filter)
qed


text \<open>
  Claim C5, as the code has it. The route only ever appends to the resume table: after
  any request the table is the old one, or the old one followed by one new row whose
  hash no old row carries. When a row with the request's content hash is already
  stored, bypassing the cache or not, the table is left exactly as it was: the old row
  is not overwritten and no second row is added. The operations of \<^verbatim>\<open>UserService\<close>
  do not touch the table. A deletion removes the uploaded files it selects and, with
  them, what was extracted from them, or the one extracted row it selects; it keeps
  every resume row in place, and it clears the reference \<^verbatim>\<open>extractedResumeId\<close> of a
  row exactly when the row refers to an extracted row that the deletion removed: one
  that was selected, or one whose uploaded file was. Nothing else in the row changes,
  and a row that refers to nothing, or to extracted data that stays, is left as it was.
\<close>

theorem generatedResume_rows_kept:
  "(generatedResumes (snd (POST H env now s req)) = generatedResumes s
    \<or> (\<exists>row. generatedResumes (snd (POST H env now s req)) = generatedResumes s @ [row]
           \<and> list_all (\<lambda>x. gr_contentHash x \<noteq> gr_contentHash row) (generatedResumes s)))
   \<and> (request_json req = Inr body
       \<and> list_ex (\<lambda>x. gr_contentHash x
                        = contentHash H (truncateResumeText (or_empty (resumeText body)))
                            (jobDescription body) (analysisId body)) (generatedResumes s)
       \<longrightarrow> generatedResumes (snd (POST H env now s req)) = generatedResumes s)
   \<and> (run_on_accounts date s op = Inr s' \<longrightarrow> generatedResumes s' = generatedResumes s)
   \<and> (run_delete s dop = Inr s'' \<longrightarrow>
        list_all2 (\<lambda>n old. n = old \<or> n = old\<lparr>gr_extractedResumeId := None\<rparr>)
          (generatedResumes s'') (generatedResumes s)
        \<and> resumes s'' = filter (\<lambda>r. \<not> resume_selected dop r) (resumes s)
        \<and> extractedResumes s''
            = filter (\<lambda>e. \<not> extracted_selected dop e
                          \<and> \<not> list_ex (\<lambda>r. rs_id r = er_resumeId e \<and> resume_selected dop r)
                                (resumes s))
                (extractedResumes s)
        \<and> generatedResumes s''
            = map (clear_reference (deleted_extracted s s'')) (generatedResumes s))
   \<and> (run_delete s dop = Inr s'' \<and> k < length (generatedResumes s) \<longrightarrow>
        generatedResumes s'' ! k
         = (case gr_extractedResumeId (generatedResumes s ! k) of
              None \<Rightarrow> generatedResumes s ! k
            | Some i \<Rightarrow>
                if list_ex (\<lambda>e. er_id e = i
                        \<and> (extracted_selected dop e
                           \<or> list_ex (\<lambda>r. rs_id r = er_resumeId e \<and> resume_selected dop r)
                               (resumes s)))
                     (extractedResumes s)
                then (generatedResumes s ! k)\<lparr>gr_extractedResumeId := None\<rparr>
                else generatedResumes s ! k))"
proof (intro conjI impI)
  show "generatedResumes (snd (POST H env now s req)) = generatedResumes s
    \<or> (\<exists>row. generatedResumes (snd (POST H env now s req)) = generatedResumes s @ [row]
           \<and> list_all (\<lambda>x. gr_contentHash x \<noteq> gr_contentHash row) (generatedResumes s))"
  proof (cases "request_json req")
    case (Inl e)
    then show ?thesis by (simp add: POST_no_body)
  next
    case (Inr b)
    from POST_rows [OF this, of H env now s] show ?thesis by blast
  qed
next
  assume a: "request_json req = Inr body
       \<and> list_ex (\<lambda>x. gr_contentHash x
                        = contentHash H (truncateResumeText (or_empty (resumeText body)))
                            (jobDescription body) (analysisId body)) (generatedResumes s)"
  then have "request_json req = Inr body" by simp
  from POST_rows [OF this, of H env now s] a
  show "generatedResumes (snd (POST H env now s req)) = generatedResumes s"
    by (auto simp: list_ex_iff list_all_iff)
next
  assume "run_on_accounts date s op = Inr s'"
  then show "generatedResumes s' = generatedResumes s"
    by (auto simp: run_on_accounts_def split: sum.splits)
next
  assume d: "run_delete s dop = Inr s''"
  then show "list_all2 (\<lambda>n old. n = old \<or> n = old\<lparr>gr_extractedResumeId := None\<rparr>)
          (generatedResumes s'') (generatedResumes s)"
    by (rule run_delete_rows)
  from d show "resumes s'' = filter (\<lambda>r. \<not> resume_selected dop r) (resumes s)"
    by (rule run_delete_exact(1))
  from d show "extractedResumes s''
            = filter (\<lambda>e. \<not> extracted_selected dop e
                          \<and> \<not> list_ex (\<lambda>r. rs_id r = er_resumeId e \<and> resume_selected dop r)
                                (resumes s))
                (extractedResumes s)"
    by (rule run_delete_extracted)
  from d show "generatedResumes s''
            = map (clear_reference (deleted_extracted s s'')) (generatedResumes s)"
    by (rule run_delete_exact(3))
next
  assume "run_delete s dop = Inr s'' \<and> k < length (generatedResumes s)"
  then show "generatedResumes s'' ! k
         = (case gr_extractedResumeId (generatedResumes s ! k) of
              None \<Rightarrow> generatedResumes s ! k
            | Some i \<Rightarrow>
                if list_ex (\<lambda>e. er_id e = i
                        \<and> (extracted_selected dop e
                           \<or> list_ex (\<lambda>r. rs_id r = er_resumeId e \<and> resume_selected dop r)
                               (resumes s)))
                     (extractedResumes s)
                then (generatedResumes s ! k)\<lparr>gr_extractedResumeId := None\<rparr>
                else generatedResumes s ! k)"
    using run_delete_reference [of s dop s'' k] by blast
qed

theorem generatedResume_rows_kept_witness:
  "request_json (request_of bob ((plain_body ''My resume'')\<lparr>bypassCache := True\<rparr>))
     = Inr ((plain_body ''My resume'')\<lparr>bypassCache := True\<rparr>)
   \<and> list_ex (\<lambda>x. gr_contentHash x
                    = contentHash identity_digest (truncateResumeText ''My resume'') None None)
        (generatedResumes (store_with_row 2))
   \<and> generatedResumes (snd (POST identity_digest demo_env 100 (store_with_row 2)
         (request_of bob ((plain_body ''My resume'')\<lparr>bypassCache := True\<rparr>))))
       = generatedResumes (store_with_row 2)
   \<and> run_on_accounts feb (store_with_row 2) (IncrementRoastCount 2)
       = Inr ((store_with_row 2)\<lparr>accounts := \<lparr>users = [alice, bob\<lparr>monthlyRoasts := 1,
                                                  totalRoasts := 1\<rparr>], nextUserId = 3\<rparr>\<rparr>)
   \<and> generatedResumes ((store_with_row 2)\<lparr>accounts := \<lparr>users = [alice, bob\<lparr>monthlyRoasts := 1,
                                                  totalRoasts := 1\<rparr>], nextUserId = 3\<rparr>\<rparr>)
       = generatedResumes (store_with_row 2)
   \<and> generatedResumes (store_with_row 2) = [stored_row 2]
   \<and> gr_extractedResumeId (stored_row 2) = Some 7
   \<and> run_delete (store_with_row 2) (Resume_deleteById 6)
       = Inr (delete_resumes (\<lambda>r. rs_id r = 6) (store_with_row 2))
   \<and> resumes (delete_resumes (\<lambda>r. rs_id r = 6) (store_with_row 2)) = []
   \<and> extractedResumes (delete_resumes (\<lambda>r. rs_id r = 6) (store_with_row 2)) = []
   \<and> generatedResumes (delete_resumes (\<lambda>r. rs_id r = 6) (store_with_row 2)) ! 0
       = (stored_row 2)\<lparr>gr_extractedResumeId := None\<rparr>
   \<and> run_delete (store_with_row 2) (Resume_deleteOldResumes 40)
       = Inr (delete_resumes (\<lambda>r. rs_createdAt r < 40 \<and> rs_userId r = None) (store_with_row 2))
   \<and> resumes (delete_resumes (\<lambda>r. rs_createdAt r < 40 \<and> rs_userId r = None)
                (store_with_row 2)) = [uploaded_resume]
   \<and> extractedResumes (delete_resumes (\<lambda>r. rs_createdAt r < 40 \<and> rs_userId r = None)
                (store_with_row 2)) = [extracted_row]
   \<and> generatedResumes (delete_resumes (\<lambda>r. rs_createdAt r < 40 \<and> rs_userId r = None)
                (store_with_row 2)) ! 0 = stored_row 2"
proof -
  let ?body = "(plain_body ''My resume'')\<lparr>bypassCache := True\<rparr>"
  let ?s' = "(store_with_row 2)\<lparr>accounts := \<lparr>users = [alice, bob\<lparr>monthlyRoasts := 1,
                                                  totalRoasts := 1\<rparr>], nextUserId = 3\<rparr>\<rparr>"
  let ?s'' = "delete_resumes (\<lambda>r. rs_id r = 6) (store_with_row 2)"
  let ?s3 = "delete_resumes (\<lambda>r. rs_createdAt r < 40 \<and> rs_userId r = None) (store_with_row 2)"
  have j: "request_json (request_of bob ?body) = Inr ?body"
    by (simp add: request_of_def)
  have h: "list_ex (\<lambda>x. gr_contentHash x
                    = contentHash identity_digest (truncateResumeText ''My resume'') None None)
        (generatedResumes (store_with_row 2))"
    by code_simp
  have rt: "resumeText ?body = Some ''My resume''" "jobDescription ?body = None"
      "analysisId ?body = None"
    by (simp_all add: plain_body_def)
  have u: "run_on_accounts feb (store_with_row 2) (IncrementRoastCount 2) = Inr ?s'"
    by code_simp
  have dl: "run_delete (store_with_row 2) (Resume_deleteById 6) = Inr ?s''"
    by (simp add: store_with_row_def uploaded_resume_def)
  have d3: "run_delete (store_with_row 2) (Resume_deleteOldResumes 40) = Inr ?s3"
    by simp
  have st: "generatedResumes (store_with_row 2) = [stored_row 2]"
      "resumes (store_with_row 2) = [uploaded_resume]"
      "extractedResumes (store_with_row 2) = [extracted_row]"
      "gr_extractedResumeId (stored_row 2) = Some 7"
      "er_id extracted_row = 7" "er_resumeId extracted_row = 6"
      "rs_id uploaded_resume = 6" "rs_createdAt uploaded_resume = 40"
    by (simp_all add: store_with_row_def stored_row_def extracted_row_def uploaded_resume_def)
  have k0: "0 < length (generatedResumes (store_with_row 2))"
    by (simp add: st)
  note inst = generatedResume_rows_kept [where H = identity_digest and env = demo_env
      and now = 100 and s = "store_with_row 2" and req = "request_of bob ?body"
      and body = ?body and date = feb and op = "IncrementRoastCount 2" and s' = ?s'
      and k = 0]
  from h rt have h': "list_ex (\<lambda>x. gr_contentHash x
                    = contentHash identity_digest
                        (truncateResumeText (or_empty (resumeText ?body)))
                        (jobDescription ?body) (analysisId ?body))
        (generatedResumes (store_with_row 2))"
    by simp
  from inst [where dop = "Resume_deleteById 6" and s'' = ?s''] j h' u dl k0
  have a: "generatedResumes (snd (POST identity_digest demo_env 100 (store_with_row 2)
         (request_of bob ?body))) = generatedResumes (store_with_row 2)"
    and b: "generatedResumes ?s' = generatedResumes (store_with_row 2)"
    and c: "resumes ?s''
       = filter (\<lambda>r. \<not> resume_selected (Resume_deleteById 6) r) (resumes (store_with_row 2))"
    and d: "extractedResumes ?s''
       = filter (\<lambda>e. \<not> extracted_selected (Resume_deleteById 6) e
                          \<and> \<not> list_ex (\<lambda>r. rs_id r = er_resumeId e
                                             \<and> resume_selected (Resume_deleteById 6) r)
                                (resumes (store_with_row 2)))
                (extractedResumes (store_with_row 2))"
    and e: "generatedResumes ?s'' ! 0
         = (case gr_extractedResumeId (generatedResumes (store_with_row 2) ! 0) of
              None \<Rightarrow> generatedResumes (store_with_row 2) ! 0
            | Some i \<Rightarrow>
                if list_ex (\<lambda>e. er_id e = i
                        \<and> (extracted_selected (Resume_deleteById 6) e
                           \<or> list_ex (\<lambda>r. rs_id r = er_resumeId e
                                          \<and> resume_selected (Resume_deleteById 6) r)
                               (resumes (store_with_row 2))))
                     (extractedResumes (store_with_row 2))
                then (generatedResumes (store_with_row 2) ! 0)\<lparr>gr_extractedResumeId := None\<rparr>
                else generatedResumes (store_with_row 2) ! 0)"
    by blast+
  from c d e st
  have 1: "resumes ?s'' = []" "extractedResumes ?s'' = []"
      "generatedResumes ?s'' ! 0 = (stored_row 2)\<lparr>gr_extractedResumeId := None\<rparr>"
    by simp_all
  from inst [where dop = "Resume_deleteOldResumes 40" and s'' = ?s3] d3 k0
  have c': "resumes ?s3
       = filter (\<lambda>r. \<not> resume_selected (Resume_deleteOldResumes 40) r)
           (resumes (store_with_row 2))"
    and d': "extractedResumes ?s3
       = filter (\<lambda>e. \<not> extracted_selected (Resume_deleteOldResumes 40) e
                          \<and> \<not> list_ex (\<lambda>r. rs_id r = er_resumeId e
                                             \<and> resume_selected (Resume_deleteOldResumes 40) r)
                                (resumes (store_with_row 2)))
                (extractedResumes (store_with_row 2))"
    and e': "generatedResumes ?s3 ! 0
         = (case gr_extractedResumeId (generatedResumes (store_with_row 2) ! 0) of
              None \<Rightarrow> generatedResumes (store_with_row 2) ! 0
            | Some i \<Rightarrow>
                if list_ex (\<lambda>e. er_id e = i
                        \<and> (extracted_selected (Resume_deleteOldResumes 40) e
                           \<or> list_ex (\<lambda>r. rs_id r = er_resumeId e
                                          \<and> resume_selected (Resume_deleteOldResumes 40) r)
                               (resumes (store_with_row 2))))
                     (extractedResumes (store_with_row 2))
                then (generatedResumes (store_with_row 2) ! 0)\<lparr>gr_extractedResumeId := None\<rparr>
                else generatedResumes (store_with_row 2) ! 0)"
    by blast+
  from c' d' e' st
  have 2: "resumes ?s3 = [uploaded_resume]" "extractedResumes ?s3 = [extracted_row]"
      "generatedResumes ?s3 ! 0 = stored_row 2"
    by simp_all
  from j h u dl d3 st(1,4) a b 1 2 show ?thesis by blast
qed

text \<open>
  Claim C5, as the specification words it, fails twice. Regenerating with the cache
  bypassed for a text whose hash is stored creates no row: the table still holds the
  one old row and the response carries no \<^verbatim>\<open>resumeId\<close>. And a stored row does change
  after its creation when the extracted data it refers to is deleted.
\<close>

theorem generatedResume_rows_counterexample:
  "generatedResumes (snd (POST identity_digest demo_env 100 (store_with_row 1)
       (request_of alice ((plain_body ''My resume'')\<lparr>bypassCache := True\<rparr>))))
     = [stored_row 1]
   \<and> gr_contentHash (stored_row 1)
       = contentHash identity_digest (truncateResumeText ''My resume'') None None
   \<and> fst (POST identity_digest demo_env 100 (store_with_row 1)
       (request_of alice ((plain_body ''My resume'')\<lparr>bypassCache := True\<rparr>)))
     = Success \<lparr>body_data = full_resume, cached = False, resumeId = None,
                metadata = Generated 1000 1200 15000 100 [] (Some 11)\<rparr>
   \<and> map_sum id generatedResumes (run_delete (store_with_row 1) (ExtractedResume_delete 7))
     = Inr [(stored_row 1)\<lparr>gr_extractedResumeId := None\<rparr>]
   \<and> gr_extractedResumeId (stored_row 1) = Some 7"
  by code_simp



end
